theory Spec2Isabelle
  imports Main "HOL-Library.Sublist"
begin

section \<open>Data model (src/types/index.ts)\<close>

text \<open>
  The TypeScript object types are records. Field names carry a short prefix, since a
  record field is a global constant and the source reuses \<open>id\<close>, \<open>content\<close> and
  \<open>created_at\<close> in several types. An optional field (\<open>last_message?\<close>,
  \<open>file_url?\<close>) is an \<open>option\<close>. Model identifiers are plain strings: the union type
  is erased at run time and \<open>MODELS\<close> is a \<open>Record<string, ...>\<close>.
\<close>

datatype role = RoleUser | RoleAssistant

record User =
  u_id :: string
  u_email :: string
  u_created_at :: string

record Message =
  m_id :: string
  m_conversation_id :: string
  m_content :: string
  m_role :: role
  m_created_at :: string
  m_file_url :: "string option"

record Conversation =
  c_id :: string
  c_title :: string
  c_user_id :: string
  c_model :: string
  c_created_at :: string
  c_last_message :: "string option"

text \<open>A text between double quotes, for the messages and payloads that contain them.\<close>

definition quoted :: "string \<Rightarrow> string" where
  "quoted s = CHR 0x22 # s @ [CHR 0x22]"

section \<open>Client state store (useChatStore)\<close>

text \<open>The data fields of \<open>ChatStore\<close>; the setters are the functions below.\<close>

record ChatStore =
  user :: "User option"
  conversations :: "Conversation list"
  currentConversation :: "Conversation option"
  messages :: "Message list"
  selectedModel :: string
  isDarkMode :: bool
  isAuthenticated :: bool

text \<open>
  The argument of zustand's \<open>set\<close> is a partial state: the fields it names are replaced,
  the others are kept (a shallow merge). A field the partial state does not name is
  \<open>None\<close> here.
\<close>

record PartialStore =
  p_user :: "User option option"
  p_conversations :: "Conversation list option"
  p_currentConversation :: "Conversation option option"
  p_messages :: "Message list option"
  p_selectedModel :: "string option"
  p_isDarkMode :: "bool option"
  p_isAuthenticated :: "bool option"

definition no_change :: PartialStore where
  "no_change = \<lparr>p_user = None, p_conversations = None, p_currentConversation = None,
     p_messages = None, p_selectedModel = None, p_isDarkMode = None,
     p_isAuthenticated = None\<rparr>"

definition merge :: "PartialStore \<Rightarrow> ChatStore \<Rightarrow> ChatStore" where
  "merge p s =
     \<lparr>user = (case p_user p of None \<Rightarrow> user s | Some v \<Rightarrow> v),
      conversations = (case p_conversations p of None \<Rightarrow> conversations s | Some v \<Rightarrow> v),
      currentConversation =
        (case p_currentConversation p of None \<Rightarrow> currentConversation s | Some v \<Rightarrow> v),
      messages = (case p_messages p of None \<Rightarrow> messages s | Some v \<Rightarrow> v),
      selectedModel = (case p_selectedModel p of None \<Rightarrow> selectedModel s | Some v \<Rightarrow> v),
      isDarkMode = (case p_isDarkMode p of None \<Rightarrow> isDarkMode s | Some v \<Rightarrow> v),
      isAuthenticated =
        (case p_isAuthenticated p of None \<Rightarrow> isAuthenticated s | Some v \<Rightarrow> v)\<rparr>"

text \<open>\<open>set(partial)\<close> and \<open>set((state) => partial)\<close>.\<close>

definition set_state :: "PartialStore \<Rightarrow> ChatStore \<Rightarrow> ChatStore" where
  "set_state p s = merge p s"

definition set_with :: "(ChatStore \<Rightarrow> PartialStore) \<Rightarrow> ChatStore \<Rightarrow> ChatStore" where
  "set_with f s = merge (f s) s"

definition initial_store :: ChatStore where
  "initial_store =
     \<lparr>user = None, conversations = [], currentConversation = None, messages = [],
      selectedModel = ''gpt-3.5-turbo'', isDarkMode = False, isAuthenticated = False\<rparr>"

text \<open>\<open>!!user\<close> is true exactly when the user is not \<open>null\<close>.\<close>

definition setUser :: "User option \<Rightarrow> ChatStore \<Rightarrow> ChatStore" where
  "setUser u = set_state (no_change\<lparr>p_user := Some u, p_isAuthenticated := Some (u \<noteq> None)\<rparr>)"

definition setConversations :: "Conversation list \<Rightarrow> ChatStore \<Rightarrow> ChatStore" where
  "setConversations cs = set_state (no_change\<lparr>p_conversations := Some cs\<rparr>)"

definition setCurrentConversation :: "Conversation option \<Rightarrow> ChatStore \<Rightarrow> ChatStore" where
  "setCurrentConversation c = set_state (no_change\<lparr>p_currentConversation := Some c\<rparr>)"

definition setMessages :: "Message list \<Rightarrow> ChatStore \<Rightarrow> ChatStore" where
  "setMessages ms = set_state (no_change\<lparr>p_messages := Some ms\<rparr>)"

definition addMessage :: "Message \<Rightarrow> ChatStore \<Rightarrow> ChatStore" where
  "addMessage message =
     set_with (\<lambda>state. no_change
       \<lparr>p_messages := Some (messages state @ [message]),
        p_conversations := Some (map (\<lambda>conv.
            if c_id conv = m_conversation_id message
            then conv\<lparr>c_last_message := Some (m_content message)\<rparr>
            else conv) (conversations state))\<rparr>)"

definition setSelectedModel :: "string \<Rightarrow> ChatStore \<Rightarrow> ChatStore" where
  "setSelectedModel model = set_state (no_change\<lparr>p_selectedModel := Some model\<rparr>)"

definition toggleDarkMode :: "ChatStore \<Rightarrow> ChatStore" where
  "toggleDarkMode = set_with (\<lambda>state. no_change\<lparr>p_isDarkMode := Some (\<not> isDarkMode state)\<rparr>)"

definition setIsAuthenticated :: "bool \<Rightarrow> ChatStore \<Rightarrow> ChatStore" where
  "setIsAuthenticated v = set_state (no_change\<lparr>p_isAuthenticated := Some v\<rparr>)"

text \<open>
  The \<open>SIGNED_OUT\<close> branch of the auth listener in \<open>App\<close>: five setter calls, one after
  the other, each a store transition of its own.
\<close>

definition onSignedOut :: "ChatStore \<Rightarrow> ChatStore" where
  "onSignedOut s =
     setConversations []
       (setMessages []
         (setCurrentConversation None
           (setIsAuthenticated False
             (setUser None s))))"

text \<open>A sequence of \<open>addMessage\<close> calls, oldest first.\<close>

definition addMessages :: "Message list \<Rightarrow> ChatStore \<Rightarrow> ChatStore" where
  "addMessages ms s = foldl (\<lambda>st m. addMessage m st) s ms"

text \<open>The messages of one conversation among those appended.\<close>

definition messages_of :: "string \<Rightarrow> Message list \<Rightarrow> Message list" where
  "messages_of cid ms = filter (\<lambda>m. m_conversation_id m = cid) ms"

section \<open>Model response adapter (src/lib/ai.ts)\<close>

subsection \<open>Results, exceptions and the provider boundary\<close>

text \<open>
  What a \<open>catch (error)\<close> clause receives: an \<open>Error\<close> object with its message, or any
  other thrown value. \<open>caught_message\<close> is the expression
  \<open>error instanceof Error ? error.message : 'Unknown error occurred'\<close>.
\<close>

datatype thrown = Error string | NonError

definition caught_message :: "thrown \<Rightarrow> string" where
  "caught_message e = (case e of Error m \<Rightarrow> m | NonError \<Rightarrow> ''Unknown error occurred'')"

text \<open>\<open>AIResponse\<close> and \<open>AIStreamResponse\<close>; the second has the fields of the first and \<open>done\<close>.\<close>

record AIResponse =
  content :: string
  error :: "string option"

record AIStreamResponse = AIResponse +
  "done" :: bool

definition fallback_content :: string where
  "fallback_content = ''I apologize, but I encountered an error processing your request.''"

definition error_response :: "thrown \<Rightarrow> AIResponse" where
  "error_response e = \<lparr>content = fallback_content, error = Some (caught_message e)\<rparr>"

definition error_snapshot :: "thrown \<Rightarrow> AIStreamResponse" where
  "error_snapshot e =
     \<lparr>content = fallback_content, error = Some (caught_message e), done = True\<rparr>"

definition snapshot :: "string \<Rightarrow> bool \<Rightarrow> AIStreamResponse" where
  "snapshot c d = \<lparr>content = c, error = None, done = d\<rparr>"

text \<open>
  The request body of the two chat-completion endpoints. The sampling temperature (the
  floating-point constant 0.7 in every call) is left out.
\<close>

type_synonym chat_message = "string \<times> string"

record chat_request =
  req_model :: string
  req_messages :: "chat_message list"
  req_max_tokens :: nat
  req_stream :: bool

definition role_name :: "role \<Rightarrow> string" where
  "role_name r = (case r of RoleUser \<Rightarrow> ''user'' | RoleAssistant \<Rightarrow> ''assistant'')"

definition history_messages :: "(role \<times> string) list \<Rightarrow> chat_message list" where
  "history_messages conversationHistory = map (\<lambda>(r, c). (role_name r, c)) conversationHistory"

definition chat_messages :: "string \<Rightarrow> (role \<times> string) list \<Rightarrow> chat_message list" where
  "chat_messages message conversationHistory =
     (''system'', ''You are a helpful AI assistant.'')
       # history_messages conversationHistory @ [(''user'', message)]"

definition openai_request :: "string \<Rightarrow> (role \<times> string) list \<Rightarrow> bool \<Rightarrow> chat_request" where
  "openai_request message conversationHistory stream =
     \<lparr>req_model = ''gpt-3.5-turbo'', req_messages = chat_messages message conversationHistory,
      req_max_tokens = 1000, req_stream = stream\<rparr>"

definition deepseek_request :: "string \<Rightarrow> (role \<times> string) list \<Rightarrow> bool \<Rightarrow> chat_request" where
  "deepseek_request message conversationHistory stream =
     \<lparr>req_model = ''deepseek-chat'', req_messages = chat_messages message conversationHistory,
      req_max_tokens = 1000, req_stream = stream\<rparr>"

text \<open>
  The OpenAI SDK's completion: \<open>choices\<close> is an array, \<open>message.content\<close> is a string or
  \<open>null\<close>. A streamed chunk: each choice gives \<open>delta?.content\<close>, \<open>None\<close> when the delta
  or its content is missing.
\<close>

datatype chat_completion = Completion (completion_choices: "string option list")

datatype stream_chunk = Chunk (chunk_choices: "string option list")

text \<open>
  The HTTP response of \<open>fetch\<close>. \<open>resp_json_content\<close> is \<open>await response.json()\<close>
  followed by \<open>data.choices[0].message.content\<close> (\<open>Inl\<close> when either throws; a
  content that is \<open>null\<close>, which the code would return as it is, has no counterpart).
  \<open>resp_body\<close> is \<open>None\<close> when \<open>response.body\<close> is \<open>null\<close>; otherwise the chunks that the
  reader's \<open>read()\<close> calls deliver, already decoded to text, and how the stream ends:
  \<open>None\<close> for \<open>done\<close>, \<open>Some e\<close> when a \<open>read()\<close> rejects with \<open>e\<close>. Strings are
  sequences of code units below 256.
\<close>

record response =
  resp_ok :: bool
  resp_statusText :: string
  resp_json_content :: "thrown + string"
  resp_body :: "(string list \<times> thrown option) option"

text \<open>
  The upstream services and the runtime, as functions of what the adapter sends:
  \<^item> \<open>openai_create\<close>, \<open>openai_create_stream\<close>: \<open>openai.chat.completions.create\<close>
    without and with \<open>stream: true\<close>; a stream is its chunks and how the iteration ends;
  \<^item> \<open>gemini_sendMessage\<close>: \<open>getGenerativeModel\<close>, \<open>startChat\<close>, \<open>sendMessage\<close>,
    \<open>result.response\<close> and \<open>response.text()\<close>, from the model name, the history and the
    message to the text (\<open>Inl\<close> when any of them throws);
  \<^item> \<open>fetch_deepseek\<close>: \<open>fetch\<close> on the Deepseek endpoint;
  \<^item> \<open>parse_delta\<close>: \<open>JSON.parse(payload)\<close> followed by
    \<open>data.choices[0].delta.content || ''\<close> (\<open>Inl\<close> when either throws).
\<close>

record providers =
  openai_create :: "chat_request \<Rightarrow> thrown + chat_completion"
  openai_create_stream :: "chat_request \<Rightarrow> thrown + (stream_chunk list \<times> thrown option)"
  gemini_sendMessage :: "string \<Rightarrow> chat_message list \<Rightarrow> string \<Rightarrow> thrown + string"
  fetch_deepseek :: "chat_request \<Rightarrow> thrown + response"
  parse_delta :: "string \<Rightarrow> thrown + string"

text \<open>
  An async function returns \<open>Inr v\<close> (fulfilled) or \<open>Inl e\<close> (rejected). A generator run to
  its end is the list of the values it yields and how it finishes.
\<close>

type_synonym 'a gen = "AIStreamResponse list \<times> (thrown + 'a)"

definition try_catch :: "thrown + 'a \<Rightarrow> (thrown \<Rightarrow> thrown + 'a) \<Rightarrow> thrown + 'a" where
  "try_catch body handler = (case body of Inl e \<Rightarrow> handler e | Inr v \<Rightarrow> Inr v)"

definition gen_try_catch :: "'a gen \<Rightarrow> (thrown \<Rightarrow> 'a gen) \<Rightarrow> 'a gen" where
  "gen_try_catch body handler =
     (case body of
        (ys, Inl e) \<Rightarrow> (case handler e of (zs, r) \<Rightarrow> (ys @ zs, r))
      | (ys, Inr v) \<Rightarrow> (ys, Inr v))"

subsection \<open>Single-shot generation\<close>

text \<open>\<open>completion.choices[0].message.content || ''\<close>; reading \<open>.message\<close> of a missing
  first choice is a \<open>TypeError\<close> (the text is the one V8 gives it).\<close>

definition type_error :: thrown where
  "type_error =
     Error (''Cannot read properties of undefined (reading '' @ [CHR 0x27] @ ''message''
            @ [CHR 0x27] @ '')'')"

definition first_message_content :: "chat_completion \<Rightarrow> thrown + string" where
  "first_message_content completion =
     (case completion_choices completion of
        [] \<Rightarrow> Inl type_error
      | c # _ \<Rightarrow> Inr (case c of None \<Rightarrow> [] | Some s \<Rightarrow> s))"

definition generateOpenAIResponse ::
  "providers \<Rightarrow> string \<Rightarrow> (role \<times> string) list \<Rightarrow> thrown + AIResponse" where
  "generateOpenAIResponse P message conversationHistory =
     try_catch
       (case openai_create P (openai_request message conversationHistory False) of
          Inl e \<Rightarrow> Inl e
        | Inr completion \<Rightarrow>
            (case first_message_content completion of
               Inl e \<Rightarrow> Inl e
             | Inr c \<Rightarrow> Inr \<lparr>content = c, error = None\<rparr>))
       (\<lambda>e. Inr (error_response e))"

definition generateGeminiResponse ::
  "providers \<Rightarrow> string \<Rightarrow> (role \<times> string) list \<Rightarrow> thrown + AIResponse" where
  "generateGeminiResponse P message conversationHistory =
     try_catch
       (case gemini_sendMessage P ''gemini-pro'' (history_messages conversationHistory) message of
          Inl e \<Rightarrow> Inl e
        | Inr text \<Rightarrow> Inr \<lparr>content = text, error = None\<rparr>)
       (\<lambda>e. Inr (error_response e))"

definition generateDeepseekResponse ::
  "providers \<Rightarrow> string \<Rightarrow> (role \<times> string) list \<Rightarrow> thrown + AIResponse" where
  "generateDeepseekResponse P message conversationHistory =
     try_catch
       (case fetch_deepseek P (deepseek_request message conversationHistory False) of
          Inl e \<Rightarrow> Inl e
        | Inr response \<Rightarrow>
            if \<not> resp_ok response
            then Inl (Error (''Deepseek API error: '' @ resp_statusText response))
            else (case resp_json_content response of
                    Inl e \<Rightarrow> Inl e
                  | Inr c \<Rightarrow> Inr \<lparr>content = c, error = None\<rparr>))
       (\<lambda>e. Inr (error_response e))"

definition generateAIResponse ::
  "providers \<Rightarrow> string \<Rightarrow> string \<Rightarrow> (role \<times> string) list \<Rightarrow> thrown + AIResponse" where
  "generateAIResponse P message model conversationHistory =
     (if model = ''gemini'' then generateGeminiResponse P message conversationHistory
      else if model = ''deepseek-chat'' then generateDeepseekResponse P message conversationHistory
      else generateOpenAIResponse P message conversationHistory)"

subsection \<open>Streaming\<close>

text \<open>\<open>chunk.split('\n')\<close>: the pieces between newlines; a string without a newline is
  one piece, and a trailing newline leaves an empty last piece.\<close>

fun split_newline :: "string \<Rightarrow> string list" where
  "split_newline [] = [[]]"
| "split_newline (c # cs) =
     (if c = CHR 0x0A then [] # split_newline cs
      else (case split_newline cs of
              [] \<Rightarrow> [[c]]
            | l # ls \<Rightarrow> (c # l) # ls))"

text \<open>\<open>String.prototype.trim\<close>: the white space and line terminators below 256.\<close>

definition is_whitespace :: "char \<Rightarrow> bool" where
  "is_whitespace c =
     (c = CHR 0x09 \<or> c = CHR 0x0A \<or> c = CHR 0x0B \<or> c = CHR 0x0C \<or> c = CHR 0x0D
      \<or> c = CHR 0x20 \<or> c = CHR 0xA0)"

definition trim :: "string \<Rightarrow> string" where
  "trim s = rev (dropWhile is_whitespace (rev (dropWhile is_whitespace s)))"

definition startsWith :: "string \<Rightarrow> string \<Rightarrow> bool" where
  "startsWith line p = (take (length p) line = p)"

text \<open>\<open>chunk.split('\n').filter(line => line.trim() !== '')\<close>.\<close>

definition chunk_lines :: "string \<Rightarrow> string list" where
  "chunk_lines chunk = filter (\<lambda>line. trim line \<noteq> []) (split_newline chunk)"

text \<open>The \<open>for (const line of lines)\<close> loop, from the accumulated content so far: the
  snapshots it yields, and the accumulated content after it or the exception that ends
  it.\<close>

fun process_lines :: "(string \<Rightarrow> thrown + string) \<Rightarrow> string \<Rightarrow> string list \<Rightarrow> string gen" where
  "process_lines parse accumulatedContent [] = ([], Inr accumulatedContent)"
| "process_lines parse accumulatedContent (line # lines) =
     (if startsWith line ''data: '' then
        (case parse (drop 6 line) of
           Inl e \<Rightarrow> ([], Inl e)
         | Inr c \<Rightarrow>
             (case process_lines parse (accumulatedContent @ c) lines of
                (ys, r) \<Rightarrow> (snapshot (accumulatedContent @ c) False # ys, r)))
      else process_lines parse accumulatedContent lines)"

text \<open>The \<open>while (true)\<close> loop over \<open>reader.read()\<close>.\<close>

fun read_loop ::
  "(string \<Rightarrow> thrown + string) \<Rightarrow> string \<Rightarrow> string list \<Rightarrow> thrown option \<Rightarrow> string gen" where
  "read_loop parse accumulatedContent [] ending =
     ([], case ending of None \<Rightarrow> Inr accumulatedContent | Some e \<Rightarrow> Inl e)"
| "read_loop parse accumulatedContent (chunk # rest) ending =
     (case process_lines parse accumulatedContent (chunk_lines chunk) of
        (ys, Inl e) \<Rightarrow> (ys, Inl e)
      | (ys, Inr acc) \<Rightarrow>
          (case read_loop parse acc rest ending of (zs, r) \<Rightarrow> (ys @ zs, r)))"

definition streamDeepseekResponse ::
  "providers \<Rightarrow> string \<Rightarrow> (role \<times> string) list \<Rightarrow> unit gen" where
  "streamDeepseekResponse P message conversationHistory =
     gen_try_catch
       (case fetch_deepseek P (deepseek_request message conversationHistory True) of
          Inl e \<Rightarrow> ([], Inl e)
        | Inr response \<Rightarrow>
            if \<not> resp_ok response
            then ([], Inl (Error (''Deepseek API error: '' @ resp_statusText response)))
            else (case resp_body response of
                    None \<Rightarrow> ([], Inl (Error ''Response body is not readable''))
                  | Some (chunks, ending) \<Rightarrow>
                      (case read_loop (parse_delta P) [] chunks ending of
                         (ys, Inl e) \<Rightarrow> (ys, Inl e)
                       | (ys, Inr acc) \<Rightarrow> (ys @ [snapshot acc True], Inr ()))))
       (\<lambda>e. ([error_snapshot e], Inr ()))"

text \<open>\<open>chunk.choices[0]?.delta?.content || ''\<close>.\<close>

definition chunk_delta :: "stream_chunk \<Rightarrow> string" where
  "chunk_delta chunk =
     (case chunk_choices chunk of
        [] \<Rightarrow> []
      | c # _ \<Rightarrow> (case c of None \<Rightarrow> [] | Some s \<Rightarrow> s))"

text \<open>The \<open>for await (const chunk of stream)\<close> loop of the default branch.\<close>

fun openai_loop :: "string \<Rightarrow> stream_chunk list \<Rightarrow> thrown option \<Rightarrow> string gen" where
  "openai_loop accumulatedContent [] ending =
     ([], case ending of None \<Rightarrow> Inr accumulatedContent | Some e \<Rightarrow> Inl e)"
| "openai_loop accumulatedContent (chunk # rest) ending =
     (case openai_loop (accumulatedContent @ chunk_delta chunk) rest ending of
        (ys, r) \<Rightarrow> (snapshot (accumulatedContent @ chunk_delta chunk) False # ys, r))"

text \<open>The \<open>default:\<close> branch of \<open>streamAIResponse\<close>, which the source writes in line.\<close>

definition streamOpenAIBranch ::
  "providers \<Rightarrow> string \<Rightarrow> (role \<times> string) list \<Rightarrow> unit gen" where
  "streamOpenAIBranch P message conversationHistory =
     gen_try_catch
       (case openai_create_stream P (openai_request message conversationHistory True) of
          Inl e \<Rightarrow> ([], Inl e)
        | Inr (chunks, ending) \<Rightarrow>
            (case openai_loop [] chunks ending of
               (ys, Inl e) \<Rightarrow> (ys, Inl e)
             | (ys, Inr acc) \<Rightarrow> (ys @ [snapshot acc True], Inr ())))
       (\<lambda>e. ([error_snapshot e], Inr ()))"

definition streamAIResponse ::
  "providers \<Rightarrow> string \<Rightarrow> string \<Rightarrow> (role \<times> string) list \<Rightarrow> unit gen" where
  "streamAIResponse P message model conversationHistory =
     (if model = ''gemini'' then
        (case generateGeminiResponse P message conversationHistory of
           Inl e \<Rightarrow> ([], Inl e)
         | Inr response \<Rightarrow>
             ([\<lparr>content = content response, error = error response, done = True\<rparr>], Inr ()))
      else if model = ''deepseek-chat'' then streamDeepseekResponse P message conversationHistory
      else streamOpenAIBranch P message conversationHistory)"

subsection \<open>What the upstream did, stated apart from the adapter\<close>

text \<open>The payloads of the frames the adapter finds, in order: of the non-blank lines of
  each chunk, taken chunk by chunk as the adapter takes them, those that start with the
  marker, without it. A frame that lies across two chunks is not among them.\<close>

definition frame_payloads :: "string list \<Rightarrow> string list" where
  "frame_payloads chunks =
     map (drop 6) (filter (\<lambda>line. startsWith line ''data: '') (concat (map chunk_lines chunks)))"

text \<open>The successive values of a running accumulator that starts at \<open>acc\<close>.\<close>

fun running_content :: "string \<Rightarrow> string list \<Rightarrow> string list" where
  "running_content acc [] = []"
| "running_content acc (d # ds) = (acc @ d) # running_content (acc @ d) ds"




definition openai_stream_failure ::
  "providers \<Rightarrow> string \<Rightarrow> (role \<times> string) list \<Rightarrow> thrown option" where
  "openai_stream_failure P message conversationHistory =
     (case openai_create_stream P (openai_request message conversationHistory True) of
        Inl e \<Rightarrow> Some e
      | Inr (chunks, ending) \<Rightarrow> ending)"



text \<open>A finished stream: snapshots that are not final and carry no error, then one
  last snapshot, which is the error snapshot of the failure if there is one and a final
  snapshot without error otherwise; the generator returns.\<close>

definition stream_shape :: "unit gen \<Rightarrow> thrown option \<Rightarrow> bool" where
  "stream_shape g failure =
     (\<exists>ys t. g = (ys @ [t], Inr ()) \<and> (\<forall>y \<in> set ys. \<not> done y \<and> error y = None) \<and>
        (case failure of Some e \<Rightarrow> t = error_snapshot e | None \<Rightarrow> done t \<and> error t = None))"

section \<open>Authentication (src/lib/auth.ts)\<close>

text \<open>
  The module variable \<open>authRequest\<close> and the requests sent to the authentication service
  so far. Promises are numbered by the request they are chained on: \<open>authRequest = Some n\<close>
  holds the promise \<open>supabase.auth....then(...).finally(...)\<close> of request number \<open>n\<close>.
\<close>

datatype auth_request = SignUpRequest string string | SignInRequest string string

record auth_module =
  authRequest :: "nat option"
  auth_issued :: "auth_request list"

definition initial_auth :: auth_module where
  "initial_auth = \<lparr>authRequest = None, auth_issued = []\<rparr>"

text \<open>What a caller gets back: a promise rejected at once, or one that settles as the
  promise of request \<open>n\<close> does.\<close>

datatype auth_result = Rejected thrown | Pending nat

definition signUp :: "string \<Rightarrow> string \<Rightarrow> auth_module \<Rightarrow> auth_result \<times> auth_module" where
  "signUp email password st =
     (if email = [] \<or> password = [] then
        (Rejected (Error ''Email and password are required''), st)
      else if length password < 6 then
        (Rejected (Error ''Password must be at least 6 characters long''), st)
      else (case authRequest st of
              Some r \<Rightarrow> (Pending r, st)
            | None \<Rightarrow>
                (Pending (length (auth_issued st)),
                 st\<lparr>authRequest := Some (length (auth_issued st)),
                    auth_issued := auth_issued st @ [SignUpRequest email password]\<rparr>)))"

definition signIn :: "string \<Rightarrow> string \<Rightarrow> auth_module \<Rightarrow> auth_result \<times> auth_module" where
  "signIn email password st =
     (if email = [] \<or> password = [] then
        (Rejected (Error ''Email and password are required''), st)
      else (case authRequest st of
              Some r \<Rightarrow> (Pending r, st)
            | None \<Rightarrow>
                (Pending (length (auth_issued st)),
                 st\<lparr>authRequest := Some (length (auth_issued st)),
                    auth_issued := auth_issued st @ [SignInRequest email password]\<rparr>)))"

text \<open>The \<open>.finally\<close> callback, run when the chained promise settles.\<close>

definition settled :: "auth_module \<Rightarrow> auth_module" where
  "settled st = st\<lparr>authRequest := None\<rparr>"

text \<open>
  The \<open>.then\<close> callbacks, from the service's answer (\<open>Inl\<close> the message of its error,
  \<open>Inr\<close> its data) to the resolution of the chained promise. \<open>signUp\<close>'s callback also
  inserts a profile row; the outcome of that insert is discarded and is not modelled.
\<close>

definition signUp_then :: "string + 'd \<Rightarrow> thrown + 'd" where
  "signUp_then answer =
     (case answer of
        Inl msg \<Rightarrow>
          if sublist ''already registered'' msg
          then Inl (Error ''This email is already registered. Please sign in instead.'')
          else Inl (Error msg)
      | Inr authData \<Rightarrow> Inr authData)"

definition signIn_then :: "string + 'd \<Rightarrow> thrown + 'd" where
  "signIn_then answer =
     (case answer of
        Inl msg \<Rightarrow>
          if sublist ''Invalid login credentials'' msg
          then Inl (Error ''Invalid email or password. Please try again.'')
          else Inl (Error msg)
      | Inr data \<Rightarrow> Inr data)"

text \<open>Calls made one after the other with no promise settling in between.\<close>

datatype auth_call = SignIn string string | SignUp string string

definition call :: "auth_call \<Rightarrow> auth_module \<Rightarrow> auth_result \<times> auth_module" where
  "call c st = (case c of SignIn e p \<Rightarrow> signIn e p st | SignUp e p \<Rightarrow> signUp e p st)"

fun run_calls :: "auth_call list \<Rightarrow> auth_module \<Rightarrow> auth_result list \<times> auth_module" where
  "run_calls [] st = ([], st)"
| "run_calls (c # cs) st =
     (case call c st of (r, st1) \<Rightarrow>
        (case run_calls cs st1 of (rs, st2) \<Rightarrow> (r # rs, st2)))"

text \<open>The arguments that get past the checks at the head of \<open>signIn\<close> and \<open>signUp\<close>.\<close>

definition passes_validation :: "auth_call \<Rightarrow> bool" where
  "passes_validation c =
     (case c of
        SignIn e p \<Rightarrow> e \<noteq> [] \<and> p \<noteq> []
      | SignUp e p \<Rightarrow> e \<noteq> [] \<and> p \<noteq> [] \<and> 6 \<le> length p)"

section \<open>Conversation relay (api.ts) and the store schema (the SQL migration)\<close>

subsection \<open>The managed store\<close>

text \<open>
  The rows of \<open>conversations\<close> and \<open>messages\<close> as the migration creates them: the fields of
  the TypeScript types and \<open>updated_at\<close>. The store holds the session's user
  (\<open>auth.uid()\<close>, \<open>None\<close> without a session), the identifiers of the \<open>profiles\<close> rows, and
  the two tables. The \<open>role\<close> check holds by the type of \<open>m_role\<close>; identifiers from
  \<open>gen_random_uuid()\<close> are taken as fresh. Identifiers stand for well-formed uuids: the
  store's answer to a text that is not a uuid (error 22P02, to the insert and to the
  update alike) is not modelled.
\<close>

record ConversationRow = Conversation +
  c_updated_at :: string

record MessageRow = Message +
  m_updated_at :: string

record database =
  db_auth_uid :: "string option"
  db_profiles :: "string list"
  db_conversations :: "ConversationRow list"
  db_messages :: "MessageRow list"

datatype pg_error = PostgrestError string string

text \<open>
  What the caller of a relay function can catch. The functions throw the store's error
  object as they get it (\<open>StoreError\<close>); \<open>AuthRequired\<close> is the error of the
  specification's taxonomy for a missing session.
\<close>

datatype api_error = AuthRequired | StoreError pg_error

text \<open>
  What one request meets on its way: the identifier and the time the server assigns
  (\<open>gen_random_uuid()\<close>, \<open>now()\<close>), and the error of the transport when the request does
  not reach the store.
\<close>

record request_env =
  fresh_id :: string
  now :: string
  transport_error :: "pg_error option"

definition rls_violation :: "string \<Rightarrow> pg_error" where
  "rls_violation table =
     PostgrestError ''42501''
       (''new row violates row-level security policy for table '' @ quoted table)"

definition fk_violation :: "string \<Rightarrow> string \<Rightarrow> pg_error" where
  "fk_violation table constraint_name =
     PostgrestError ''23503''
       (''insert or update on table '' @ quoted table @ '' violates foreign key constraint ''
          @ quoted constraint_name)"

text \<open>
  \<open>from('conversations').insert({title, model, user_id}).select().single()\<close>. The policy
  on \<open>conversations\<close> is for authenticated users and checks \<open>auth.uid() = user_id\<close>;
  \<open>user_id\<close> references \<open>profiles(id)\<close>.
\<close>

definition insert_conversation ::
  "request_env \<Rightarrow> string \<Rightarrow> string \<Rightarrow> string option \<Rightarrow> database
     \<Rightarrow> (pg_error + ConversationRow) \<times> database" where
  "insert_conversation env title model user_id db =
     (case transport_error env of
        Some e \<Rightarrow> (Inl e, db)
      | None \<Rightarrow>
          (case (db_auth_uid db, user_id) of
             (Some uid, Some owner) \<Rightarrow>
               if uid \<noteq> owner then (Inl (rls_violation ''conversations''), db)
               else if owner \<notin> set (db_profiles db)
               then (Inl (fk_violation ''conversations'' ''conversations_user_id_fkey''), db)
               else
                 (Inr \<lparr>c_id = fresh_id env, c_title = title, c_user_id = owner, c_model = model,
                        c_created_at = now env, c_last_message = None, c_updated_at = now env\<rparr>,
                  db\<lparr>db_conversations := db_conversations db @
                       [\<lparr>c_id = fresh_id env, c_title = title, c_user_id = owner, c_model = model,
                         c_created_at = now env, c_last_message = None,
                         c_updated_at = now env\<rparr>]\<rparr>)
           | _ \<Rightarrow> (Inl (rls_violation ''conversations''), db)))"

text \<open>The policy on \<open>messages\<close>: a conversation with this identifier exists and the
  session's user owns it.\<close>

definition owns_conversation :: "database \<Rightarrow> string \<Rightarrow> bool" where
  "owns_conversation db cid =
     list_ex (\<lambda>c. c_id c = cid \<and> Some (c_user_id c) = db_auth_uid db) (db_conversations db)"

definition insert_message ::
  "request_env \<Rightarrow> string \<Rightarrow> string \<Rightarrow> role \<Rightarrow> string option \<Rightarrow> database
     \<Rightarrow> (pg_error + MessageRow) \<times> database" where
  "insert_message env conversationId text r fileUrl db =
     (case transport_error env of
        Some e \<Rightarrow> (Inl e, db)
      | None \<Rightarrow>
          if \<not> owns_conversation db conversationId then (Inl (rls_violation ''messages''), db)
          else
            (Inr \<lparr>m_id = fresh_id env, m_conversation_id = conversationId, m_content = text,
                   m_role = r, m_created_at = now env, m_file_url = fileUrl,
                   m_updated_at = now env\<rparr>,
             db\<lparr>db_messages := db_messages db @
                  [\<lparr>m_id = fresh_id env, m_conversation_id = conversationId, m_content = text,
                    m_role = r, m_created_at = now env, m_file_url = fileUrl,
                    m_updated_at = now env\<rparr>]\<rparr>))"

text \<open>
  \<open>from('conversations').update({last_message}).eq('id', conversationId)\<close>: the rows
  with this identifier that the session's user owns get the new last message and, by the
  trigger, a new \<open>updated_at\<close>. No matching row is not an error.
\<close>

definition update_last_message ::
  "request_env \<Rightarrow> string \<Rightarrow> string \<Rightarrow> database \<Rightarrow> pg_error option \<times> database" where
  "update_last_message env conversationId text db =
     (case transport_error env of
        Some e \<Rightarrow> (Some e, db)
      | None \<Rightarrow>
          (None,
           db\<lparr>db_conversations :=
                map (\<lambda>c. if c_id c = conversationId \<and> Some (c_user_id c) = db_auth_uid db
                          then c\<lparr>c_last_message := Some text, c_updated_at := now env\<rparr>
                          else c)
                    (db_conversations db)\<rparr>))"

subsection \<open>The relay functions\<close>

text \<open>\<open>(await supabase.auth.getUser()).data.user?.id\<close>.\<close>

definition getUser_id :: "database \<Rightarrow> string option" where
  "getUser_id db = db_auth_uid db"

definition createConversation ::
  "request_env \<Rightarrow> string \<Rightarrow> string \<Rightarrow> database \<Rightarrow> (api_error + ConversationRow) \<times> database" where
  "createConversation env title model db =
     (case insert_conversation env title model (getUser_id db) db of
        (Inl e, db') \<Rightarrow> (Inl (StoreError e), db')
      | (Inr row, db') \<Rightarrow> (Inr row, db'))"

text \<open>
  \<open>sendMessage\<close> builds the two requests and awaits both with \<open>Promise.all\<close>. The store
  applies them in an order the client does not choose: \<open>insert_first\<close> says which. Then
  the insert's error is thrown if there is one, else the update's, else the inserted row
  is returned.
\<close>

definition sendMessage ::
  "request_env \<Rightarrow> request_env \<Rightarrow> bool \<Rightarrow> string \<Rightarrow> string \<Rightarrow> role \<Rightarrow> string option \<Rightarrow> database
     \<Rightarrow> (api_error + MessageRow) \<times> database" where
  "sendMessage envM envU insert_first conversationId text r fileUrl db =
     (case (if insert_first then
              (case insert_message envM conversationId text r fileUrl db of
                 (messageResult, db1) \<Rightarrow>
                   (case update_last_message envU conversationId text db1 of
                      (updateResult, db2) \<Rightarrow> (messageResult, updateResult, db2)))
            else
              (case update_last_message envU conversationId text db of
                 (updateResult, db1) \<Rightarrow>
                   (case insert_message envM conversationId text r fileUrl db1 of
                      (messageResult, db2) \<Rightarrow> (messageResult, updateResult, db2)))) of
        (messageResult, updateResult, db') \<Rightarrow>
          (case messageResult of
             Inl e \<Rightarrow> (Inl (StoreError e), db')
           | Inr row \<Rightarrow>
               (case updateResult of
                  Some e \<Rightarrow> (Inl (StoreError e), db')
                | None \<Rightarrow> (Inr row, db'))))"

section \<open>Example values\<close>

text \<open>Concrete states and inputs at which the theorems below are instantiated.\<close>

definition sample_user :: User where
  "sample_user = \<lparr>u_id = ''u1'', u_email = ''ada@example.org'', u_created_at = ''2024-01-01''\<rparr>"

definition sample_conversation :: Conversation where
  "sample_conversation =
     \<lparr>c_id = ''c1'', c_title = ''New Chat'', c_user_id = ''u1'', c_model = ''gpt-3.5-turbo'',
      c_created_at = ''2024-01-01'', c_last_message = None\<rparr>"

definition other_conversation :: Conversation where
  "other_conversation =
     \<lparr>c_id = ''c2'', c_title = ''Other'', c_user_id = ''u1'', c_model = ''gemini'',
      c_created_at = ''2024-01-02'', c_last_message = Some ''old''\<rparr>"

definition sample_message :: "string \<Rightarrow> string \<Rightarrow> Message" where
  "sample_message mid text =
     \<lparr>m_id = mid, m_conversation_id = ''c1'', m_content = text, m_role = RoleUser,
      m_created_at = ''2024-01-01'', m_file_url = None\<rparr>"

definition sample_store :: ChatStore where
  "sample_store =
     \<lparr>user = Some sample_user, conversations = [sample_conversation, other_conversation],
      currentConversation = Some sample_conversation, messages = [sample_message ''m1'' ''Hello''],
      selectedModel = ''gemini'', isDarkMode = True, isAuthenticated = True\<rparr>"

text \<open>
  An event frame of the Deepseek stream with one delta, a table of what \<open>parse_delta\<close>
  gives on the payloads used below, and providers that answer with given chunks.
\<close>

definition delta_payload :: "string \<Rightarrow> string" where
  "delta_payload d =
     ''{'' @ quoted ''choices'' @ '':[{'' @ quoted ''delta'' @ '':{'' @ quoted ''content'' @ '':''
       @ quoted d @ ''}}]}''"

definition delta_frame :: "string \<Rightarrow> string" where
  "delta_frame d = ''data: '' @ delta_payload d @ [CHR 0x0A, CHR 0x0A]"

text \<open>The frame that ends a stream of the provider, and the \<open>SyntaxError\<close> of
  \<open>JSON.parse\<close> on its payload (the text is the one V8 gives it).\<close>

definition done_frame :: string where
  "done_frame = ''data: [DONE]'' @ [CHR 0x0A, CHR 0x0A]"

definition done_syntax_error :: thrown where
  "done_syntax_error =
     Error (''Unexpected token '' @ [CHR 0x27] @ ''D'' @ [CHR 0x27] @ '', '' @ quoted ''[DONE]''
            @ '' is not valid JSON'')"

definition sample_parse_delta :: "string \<Rightarrow> thrown + string" where
  "sample_parse_delta payload =
     (if payload = delta_payload ''Hi'' then Inr ''Hi''
      else if payload = delta_payload '' there'' then Inr '' there''
      else if payload = ''[DONE]'' then Inl done_syntax_error
      else Inl (Error ''Unexpected token''))"

definition sample_response :: "string list \<Rightarrow> thrown option \<Rightarrow> response" where
  "sample_response chunks ending =
     \<lparr>resp_ok = True, resp_statusText = ''OK'', resp_json_content = Inr ''Hello!'',
      resp_body = Some (chunks, ending)\<rparr>"

definition sample_providers :: "string list \<Rightarrow> thrown option \<Rightarrow> providers" where
  "sample_providers chunks ending =
     \<lparr>openai_create = (\<lambda>req. Inr (Completion [Some ''Hello!''])),
      openai_create_stream = (\<lambda>req. Inr ([Chunk [Some ''Hel''], Chunk [Some ''lo!'']], None)),
      gemini_sendMessage = (\<lambda>model history message. Inl (Error ''quota exceeded'')),
      fetch_deepseek = (\<lambda>req. Inr (sample_response chunks ending)),
      parse_delta = sample_parse_delta\<rparr>"

text \<open>One frame with the delta \<open>Hi\<close>, delivered by two reads: the first ends after three
  characters of the frame.\<close>

definition cut_frame :: "string list" where
  "cut_frame = [''dat'', ''a: '' @ delta_payload ''Hi'' @ [CHR 0x0A, CHR 0x0A]]"

text \<open>The authentication module while one sign-in is in flight, and calls made then.\<close>

definition in_flight :: auth_module where
  "in_flight = snd (signIn ''ada@example.org'' ''secret'' initial_auth)"

definition sample_calls :: "auth_call list" where
  "sample_calls =
     [SignUp ''bob@example.org'' ''hunter22'', SignIn ''ada@example.org'' ''secret'',
      SignIn [] ''secret'', SignUp ''bob@example.org'' ''12345'']"

text \<open>A store without a session and one with the session of user \<open>u1\<close>, who owns one
  conversation; a request that reaches the store and one that is lost on the way.\<close>

definition signed_out_db :: database where
  "signed_out_db = \<lparr>db_auth_uid = None, db_profiles = [''u1''], db_conversations = [], db_messages = []\<rparr>"

definition stored_conversation :: ConversationRow where
  "stored_conversation =
     \<lparr>c_id = ''c1'', c_title = ''New Chat'', c_user_id = ''u1'', c_model = ''gpt-3.5-turbo'',
      c_created_at = ''2024-01-01'', c_last_message = None, c_updated_at = ''2024-01-01''\<rparr>"

definition signed_in_db :: database where
  "signed_in_db =
     \<lparr>db_auth_uid = Some ''u1'', db_profiles = [''u1''], db_conversations = [stored_conversation],
      db_messages = []\<rparr>"

definition delivered :: "string \<Rightarrow> string \<Rightarrow> request_env" where
  "delivered new_id time = \<lparr>fresh_id = new_id, now = time, transport_error = None\<rparr>"

definition lost :: "string \<Rightarrow> string \<Rightarrow> request_env" where
  "lost new_id time =
     \<lparr>fresh_id = new_id, now = time,
      transport_error = Some (PostgrestError [] ''TypeError: Failed to fetch'')\<rparr>"

section \<open>Properties of the client state store\<close>

lemma setter_fields:
  "setUser u s = s\<lparr>user := u, isAuthenticated := (u \<noteq> None)\<rparr>"
  "setConversations cs s = s\<lparr>conversations := cs\<rparr>"
  "setCurrentConversation c s = s\<lparr>currentConversation := c\<rparr>"
  "setMessages ms s = s\<lparr>messages := ms\<rparr>"
  "setIsAuthenticated v s = s\<lparr>isAuthenticated := v\<rparr>"
  by (simp_all add: setUser_def setConversations_def setCurrentConversation_def
      setMessages_def setIsAuthenticated_def set_state_def merge_def no_change_def)

lemma addMessage_fields:
  "messages (addMessage m s) = messages s @ [m]"
  "conversations (addMessage m s) = map (\<lambda>conv.
            if c_id conv = m_conversation_id m
            then conv\<lparr>c_last_message := Some (m_content m)\<rparr>
            else conv) (conversations s)"
  "user (addMessage m s) = user s"
  "currentConversation (addMessage m s) = currentConversation s"
  "selectedModel (addMessage m s) = selectedModel s"
  "isDarkMode (addMessage m s) = isDarkMode s"
  "isAuthenticated (addMessage m s) = isAuthenticated s"
  by (simp_all add: addMessage_def set_with_def merge_def no_change_def)

lemma addMessages_snoc: "addMessages (ms @ [m]) s = addMessage m (addMessages ms s)"
  by (simp add: addMessages_def)

lemma addMessages_Nil: "addMessages [] s = s"
  by (simp add: addMessages_def)

lemma addMessages_messages: "messages (addMessages ms s) = messages s @ ms"
  by (induction ms rule: rev_induct) (simp_all add: addMessages_snoc addMessages_Nil addMessage_fields)

lemma addMessages_length:
  "length (conversations (addMessages ms s)) = length (conversations s)"
  by (induction ms rule: rev_induct) (simp_all add: addMessages_snoc addMessages_Nil addMessage_fields)

lemma addMessages_id:
  "i < length (conversations s) \<Longrightarrow>
   c_id (conversations (addMessages ms s) ! i) = c_id (conversations s ! i)"
  by (induction ms rule: rev_induct)
    (simp_all add: addMessages_snoc addMessages_Nil addMessage_fields addMessages_length)

lemma addMessages_conv:
  "i < length (conversations s) \<Longrightarrow>
   conversations (addMessages ms s) ! i =
     (case messages_of (c_id (conversations s ! i)) ms of
        [] \<Rightarrow> conversations s ! i
      | _ # _ \<Rightarrow> (conversations s ! i)\<lparr>c_last_message :=
           Some (m_content (last (messages_of (c_id (conversations s ! i)) ms)))\<rparr>)"
proof (induction ms rule: rev_induct)
  case Nil
  then show ?case by (simp add: addMessages_Nil messages_of_def)
next
  case (snoc m ms)
  then show ?case
    by (simp add: addMessages_snoc addMessage_fields addMessages_length addMessages_id
        messages_of_def split: list.splits)
qed

text \<open>
  Claim C10. For every store state and every user value \<open>u\<close>, \<open>null\<close> included,
  \<open>setUser\<close> sets the user to \<open>u\<close> and the authentication flag to whether \<open>u\<close> is not
  \<open>null\<close>, and leaves the conversation list, the current conversation, the message list,
  the selected model and the dark-mode flag as they were.
\<close>

theorem setUser_frame:
  "user (setUser u s) = u \<and>
   isAuthenticated (setUser u s) = (u \<noteq> None) \<and>
   conversations (setUser u s) = conversations s \<and>
   currentConversation (setUser u s) = currentConversation s \<and>
   messages (setUser u s) = messages s \<and>
   selectedModel (setUser u s) = selectedModel s \<and>
   isDarkMode (setUser u s) = isDarkMode s"
  by (simp add: setUser_def set_state_def merge_def no_change_def)

theorem setUser_frame_witness:
  "user (setUser (Some sample_user) initial_store) = Some sample_user \<and>
   isAuthenticated (setUser (Some sample_user) initial_store) \<and>
   conversations (setUser (Some sample_user) initial_store) = [] \<and>
   selectedModel (setUser (Some sample_user) initial_store) = ''gpt-3.5-turbo''"
  using setUser_frame [of "Some sample_user" initial_store]
  by (simp add: initial_store_def)

text \<open>
  Claim C6, as stated, fails: clearing the user is \<open>setUser(null)\<close>, and on a signed-in
  state with a conversation list, a current conversation and messages it clears the user
  and the authentication flag and nothing else.
\<close>

theorem setUser_null_keeps_lists:
  "user (setUser None sample_store) = None \<and>
   \<not> isAuthenticated (setUser None sample_store) \<and>
   messages (setUser None sample_store) \<noteq> [] \<and>
   conversations (setUser None sample_store) \<noteq> [] \<and>
   currentConversation (setUser None sample_store) \<noteq> None"
  by (simp add: setter_fields sample_store_def)

text \<open>
  Claim C6, amended. \<open>setUser(null)\<close> clears the user and the authentication flag only.
  The current conversation, the message list and the conversation list are cleared by
  further, separate transitions, which the \<open>SIGNED_OUT\<close> handler issues after it; once
  the handler's five transitions have run, all five fields are cleared and the selected
  model and the dark-mode flag are as before.
\<close>

theorem onSignedOut_clears:
  "onSignedOut s =
     \<lparr>user = None, conversations = [], currentConversation = None, messages = [],
      selectedModel = selectedModel s, isDarkMode = isDarkMode s, isAuthenticated = False\<rparr> \<and>
   user (setUser None s) = None \<and>
   \<not> isAuthenticated (setUser None s) \<and>
   currentConversation (setUser None s) = currentConversation s \<and>
   messages (setUser None s) = messages s \<and>
   conversations (setUser None s) = conversations s"
  by (simp add: onSignedOut_def setter_fields)

theorem onSignedOut_clears_witness:
  "onSignedOut sample_store =
     \<lparr>user = None, conversations = [], currentConversation = None, messages = [],
      selectedModel = ''gemini'', isDarkMode = True, isAuthenticated = False\<rparr>"
  using onSignedOut_clears [of sample_store]
  by (simp add: sample_store_def)

text \<open>
  Claim C7. \<open>addMessage m\<close> appends \<open>m\<close> to the message list and, in the same
  transition, sets \<open>last_message\<close> to the content of \<open>m\<close> in every listed conversation
  whose identifier is \<open>m.conversation_id\<close>; the other conversations and the other fields
  of the state are unchanged. Hence after any sequence \<open>ms\<close> of appended messages, a
  listed conversation for which some message of \<open>ms\<close> was meant carries the content of
  the last such message, and any other listed conversation is as it was.
\<close>

theorem addMessage_last_message:
  "messages (addMessage m s) = messages s @ [m] \<and>
   length (conversations (addMessage m s)) = length (conversations s) \<and>
   (\<forall>i < length (conversations s).
      conversations (addMessage m s) ! i =
        (if c_id (conversations s ! i) = m_conversation_id m
         then (conversations s ! i)\<lparr>c_last_message := Some (m_content m)\<rparr>
         else conversations s ! i)) \<and>
   user (addMessage m s) = user s \<and>
   currentConversation (addMessage m s) = currentConversation s \<and>
   selectedModel (addMessage m s) = selectedModel s \<and>
   isDarkMode (addMessage m s) = isDarkMode s \<and>
   isAuthenticated (addMessage m s) = isAuthenticated s \<and>
   messages (addMessages ms s) = messages s @ ms \<and>
   length (conversations (addMessages ms s)) = length (conversations s) \<and>
   (\<forall>i < length (conversations s).
      messages_of (c_id (conversations s ! i)) ms \<noteq> [] \<longrightarrow>
      conversations (addMessages ms s) ! i =
        (conversations s ! i)\<lparr>c_last_message :=
           Some (m_content (last (messages_of (c_id (conversations s ! i)) ms)))\<rparr>) \<and>
   (\<forall>i < length (conversations s).
      messages_of (c_id (conversations s ! i)) ms = [] \<longrightarrow>
      conversations (addMessages ms s) ! i = conversations s ! i)"
  by (simp add: addMessage_fields addMessages_messages addMessages_length addMessages_conv
      split: list.splits)

theorem addMessage_last_message_witness:
  "conversations (addMessage (sample_message ''m2'' ''Hi again'') sample_store) =
     [sample_conversation\<lparr>c_last_message := Some ''Hi again''\<rparr>, other_conversation] \<and>
   conversations
     (addMessages [sample_message ''m2'' ''Hi again'', sample_message ''m3'' ''Bye''] sample_store) ! 0 =
     sample_conversation\<lparr>c_last_message := Some ''Bye''\<rparr> \<and>
   conversations
     (addMessages [sample_message ''m2'' ''Hi again'', sample_message ''m3'' ''Bye''] sample_store) ! 1 =
     other_conversation"
proof -
  let ?ms = "[sample_message ''m2'' ''Hi again'', sample_message ''m3'' ''Bye'']"
  note t = addMessage_last_message [of "sample_message ''m2'' ''Hi again''" sample_store ?ms]
  have l: "conversations sample_store = [sample_conversation, other_conversation]"
    by (simp add: sample_store_def)
  have m0: "messages_of (c_id (conversations sample_store ! 0)) ?ms = ?ms"
    by (simp add: l messages_of_def sample_message_def sample_conversation_def)
  have m1: "messages_of (c_id (conversations sample_store ! 1)) ?ms = []"
    by (simp add: l messages_of_def sample_message_def other_conversation_def)
  have a: "conversations (addMessage (sample_message ''m2'' ''Hi again'') sample_store) =
     [sample_conversation\<lparr>c_last_message := Some ''Hi again''\<rparr>, other_conversation]"
  proof (rule nth_equalityI)
    show "length (conversations (addMessage (sample_message ''m2'' ''Hi again'') sample_store)) =
      length [sample_conversation\<lparr>c_last_message := Some ''Hi again''\<rparr>, other_conversation]"
      using t by (simp add: l)
  next
    fix i
    assume "i < length (conversations (addMessage (sample_message ''m2'' ''Hi again'') sample_store))"
    then have i: "i < 2" using t by (simp add: l)
    then have "i = 0 \<or> i = 1" by auto
    then show "conversations (addMessage (sample_message ''m2'' ''Hi again'') sample_store) ! i =
      [sample_conversation\<lparr>c_last_message := Some ''Hi again''\<rparr>, other_conversation] ! i"
      using t
      by (auto simp add: l sample_message_def sample_conversation_def other_conversation_def)
  qed
  have b: "conversations (addMessages ?ms sample_store) ! 0 =
     sample_conversation\<lparr>c_last_message := Some ''Bye''\<rparr>"
    using t m0 by (simp add: l sample_message_def)
  have c: "conversations (addMessages ?ms sample_store) ! 1 = other_conversation"
    using t m1 by (simp add: l)
  from a b c show ?thesis by simp
qed

section \<open>Properties of the model response adapter\<close>

subsection \<open>The read and line iterations\<close>

lemma running_content_length: "length (running_content acc ds) = length ds"
  by (induction ds arbitrary: acc) simp_all

lemma running_content_append:
  "running_content acc (xs @ ys) = running_content acc xs @ running_content (acc @ concat xs) ys"
  by (induction xs arbitrary: acc) simp_all

lemma running_content_nth:
  "k < length ds \<Longrightarrow> running_content acc ds ! k = acc @ concat (take (Suc k) ds)"
proof (induction ds arbitrary: acc k)
  case Nil
  then show ?case by simp
next
  case (Cons d ds)
  then show ?case by (cases k) simp_all
qed

lemma concat_take_prefix: "prefix (concat (take k ds)) (concat ds)"
proof -
  have "concat ds = concat (take k ds) @ concat (drop k ds)"
    by (metis append_take_drop_id concat_append)
  then show ?thesis by (metis prefixI)
qed

lemma concat_take_Suc_prefix: "prefix (concat (take k ds)) (concat (take (Suc k) ds))"
proof (cases "k < length ds")
  case True
  then show ?thesis by (simp add: take_Suc_conv_app_nth)
next
  case False
  then show ?thesis by simp
qed

lemma process_lines_ok:
  "map parse (map (drop 6) (filter (\<lambda>l. startsWith l ''data: '') lines)) = map Inr ds \<Longrightarrow>
   process_lines parse acc lines =
     (map (\<lambda>c. snapshot c False) (running_content acc ds), Inr (acc @ concat ds))"
proof (induction lines arbitrary: acc ds)
  case Nil
  then show ?case by simp
next
  case (Cons line lines)
  show ?case
  proof (cases "startsWith line ''data: ''")
    case True
    with Cons.prems obtain d ds' where ds: "ds = d # ds'"
      and d: "parse (drop 6 line) = Inr d"
      and rest: "map parse (map (drop 6) (filter (\<lambda>l. startsWith l ''data: '') lines)) = map Inr ds'"
      by (cases ds) auto
    from Cons.IH [OF rest, of "acc @ d"] True d ds show ?thesis by simp
  next
    case False
    with Cons show ?thesis by simp
  qed
qed

lemma frame_payloads_Cons:
  "frame_payloads (chunk # rest) =
     map (drop 6) (filter (\<lambda>l. startsWith l ''data: '') (chunk_lines chunk)) @ frame_payloads rest"
  by (simp add: frame_payloads_def)

lemma frame_payloads_Nil: "frame_payloads [] = []"
  by (simp add: frame_payloads_def)

lemma read_loop_ok:
  "map parse (frame_payloads chunks) = map Inr ds \<Longrightarrow>
   read_loop parse acc chunks None =
     (map (\<lambda>c. snapshot c False) (running_content acc ds), Inr (acc @ concat ds))"
proof (induction chunks arbitrary: acc ds)
  case Nil
  then show ?case by (simp add: frame_payloads_Nil)
next
  case (Cons chunk rest)
  let ?here = "map (drop 6) (filter (\<lambda>l. startsWith l ''data: '') (chunk_lines chunk))"
  from Cons.prems have "map parse ?here @ map parse (frame_payloads rest) = map Inr ds"
    by (simp add: frame_payloads_Cons)
  then obtain ds1 ds2 where ds: "ds = ds1 @ ds2"
    and h1: "map parse ?here = map Inr ds1"
    and h2: "map parse (frame_payloads rest) = map Inr ds2"
    by (auto simp add: append_eq_map_conv)
  from process_lines_ok [OF h1, of acc] Cons.IH [OF h2, of "acc @ concat ds1"] ds
  show ?case by (simp add: running_content_append)
qed






lemma openai_loop_yields:
  "y \<in> set (fst (openai_loop acc chunks ending)) \<Longrightarrow> \<not> done y \<and> error y = None"
proof (induction chunks arbitrary: acc)
  case Nil
  then show ?case by simp
next
  case (Cons chunk rest)
  obtain ys r where q: "openai_loop (acc @ chunk_delta chunk) rest ending = (ys, r)"
    by (cases "openai_loop (acc @ chunk_delta chunk) rest ending")
  from Cons.prems q have "y = snapshot (acc @ chunk_delta chunk) False \<or> y \<in> set ys"
    by simp
  then show ?case
    using Cons.IH [of "acc @ chunk_delta chunk"] q by (auto simp add: snapshot_def)
qed

lemma openai_loop_failure:
  "(case snd (openai_loop acc chunks ending) of Inl e \<Rightarrow> Some e | Inr a \<Rightarrow> None) = ending"
proof (induction chunks arbitrary: acc)
  case Nil
  then show ?case by (simp split: option.splits)
next
  case (Cons chunk rest)
  obtain ys r where q: "openai_loop (acc @ chunk_delta chunk) rest ending = (ys, r)"
    by (cases "openai_loop (acc @ chunk_delta chunk) rest ending")
  from Cons.IH [of "acc @ chunk_delta chunk"] q show ?case by simp
qed

lemma loop_shape:
  assumes ys: "\<And>y. y \<in> set (fst loop) \<Longrightarrow> \<not> done y \<and> error y = None"
    and f: "(case snd loop of Inl e \<Rightarrow> Some e | Inr a \<Rightarrow> None) = failure"
  shows "stream_shape
           (gen_try_catch
              (case loop of (ys, Inl e) \<Rightarrow> (ys, Inl e)
                          | (ys, Inr acc) \<Rightarrow> (ys @ [snapshot acc True], Inr ()))
              (\<lambda>e. ([error_snapshot e], Inr ())))
           failure"
proof (cases loop)
  case (Pair zs r)
  with ys have zs: "\<forall>y \<in> set zs. \<not> done y \<and> error y = None" by simp
  show ?thesis
  proof (cases r)
    case (Inl e)
    with Pair f zs show ?thesis
      by (auto simp add: stream_shape_def gen_try_catch_def)
  next
    case (Inr acc)
    with Pair f zs show ?thesis
      by (auto simp add: stream_shape_def gen_try_catch_def snapshot_def)
  qed
qed

lemma immediate_failure_shape:
  "stream_shape (gen_try_catch ([], Inl e) (\<lambda>e. ([error_snapshot e], Inr ()))) (Some e)"
  by (simp add: stream_shape_def gen_try_catch_def)


lemma openai_shape:
  "stream_shape (streamOpenAIBranch P message conversationHistory)
     (openai_stream_failure P message conversationHistory)"
proof (cases "openai_create_stream P (openai_request message conversationHistory True)")
  case (Inl e)
  then show ?thesis
    using immediate_failure_shape [of e]
    by (simp add: streamOpenAIBranch_def openai_stream_failure_def)
next
  case (Inr stream)
  obtain chunks ending where stream: "stream = (chunks, ending)" by (cases stream)
  from Inr stream show ?thesis
    using loop_shape [of "openai_loop [] chunks ending", OF openai_loop_yields openai_loop_failure]
    by (simp add: streamOpenAIBranch_def openai_stream_failure_def)
qed




lemma frame_payloads_sample:
  "frame_payloads [delta_frame ''Hi'', delta_frame '' there''] =
     [delta_payload ''Hi'', delta_payload '' there'']"
  by code_simp


lemma sample_parse_values:
  "sample_parse_delta (delta_payload ''Hi'') = Inr ''Hi''"
  "sample_parse_delta (delta_payload '' there'') = Inr '' there''"
  by code_simp+

subsection \<open>Frames and chunk boundaries\<close>

text \<open>
  The adapter splits each chunk it reads, not the stream. When every chunk ends at a line
  end, the frames it finds are those of the whole stream split on newlines; a frame that
  a chunk boundary cuts in two is not found.
\<close>

lemma split_newline_not_Nil: "split_newline xs \<noteq> []"
  by (induction xs) (simp_all split: list.splits)

lemma split_newline_append:
  "split_newline (xs @ CHR 0x0A # ys) = split_newline xs @ split_newline ys"
proof (induction xs)
  case Nil
  then show ?case by simp
next
  case (Cons c cs)
  obtain l ls where l: "split_newline cs = l # ls"
    using split_newline_not_Nil [of cs] by (cases "split_newline cs") simp_all
  with Cons show ?case by simp
qed

lemma chunk_lines_Nil: "chunk_lines [] = []"
  by (simp add: chunk_lines_def trim_def)

lemma chunk_lines_append:
  "chunk_lines (xs @ CHR 0x0A # ys) = chunk_lines xs @ chunk_lines ys"
  by (simp add: chunk_lines_def split_newline_append)

lemma chunk_lines_whole:
  assumes "c = [] \<or> last c = CHR 0x0A"
  shows "chunk_lines (c @ ys) = chunk_lines c @ chunk_lines ys"
proof (cases "c = []")
  case True
  then show ?thesis by (simp add: chunk_lines_Nil)
next
  case False
  with assms obtain c' where c: "c = c' @ [CHR 0x0A]"
    by (metis append_butlast_last_id)
  have "chunk_lines (c @ ys) = chunk_lines c' @ chunk_lines ys"
    using chunk_lines_append [of c' ys] by (simp add: c)
  moreover have "chunk_lines c = chunk_lines c'"
    using chunk_lines_append [of c' "[]"] by (simp add: c chunk_lines_Nil)
  ultimately show ?thesis by simp
qed

lemma chunk_lines_concat:
  "\<forall>c \<in> set chunks. c = [] \<or> last c = CHR 0x0A \<Longrightarrow>
   chunk_lines (concat chunks) = concat (map chunk_lines chunks)"
  by (induction chunks) (simp_all add: chunk_lines_Nil chunk_lines_whole)

lemma frame_payloads_of_stream:
  "\<forall>c \<in> set chunks. c = [] \<or> last c = CHR 0x0A \<Longrightarrow>
   frame_payloads chunks = frame_payloads [concat chunks]"
  by (simp add: frame_payloads_def chunk_lines_concat)

lemma frame_cut_by_chunk_boundary:
  "frame_payloads [''data: x'' @ [CHR 0x0A]] = [''x''] \<and>
   frame_payloads [''da'', ''ta: x'' @ [CHR 0x0A]] = []"
  by code_simp

subsection \<open>Streaming from the event-frame provider\<close>

text \<open>
  What the adapter does with the frames it finds. Let the Deepseek request be answered
  with a success status and a readable body, let the stream close normally, and let the
  frames the adapter finds (\<open>frame_payloads\<close>: the lines of each chunk that start with
  \<open>data: \<close>, which are the frames of the whole stream when the chunks end at line
  ends) all parse, to the deltas \<open>deltas\<close>. Then \<open>streamDeepseekResponse\<close> yields one
  snapshot per such frame and one more: snapshot \<open>k\<close> is not final and its content is
  the concatenation of the first \<open>k + 1\<close> deltas, the content of each snapshot is a
  prefix of the content of the next, and the last snapshot has \<open>done = true\<close> and the
  concatenation of all deltas as content.
\<close>

lemma streamDeepseek_accumulates:
  assumes "fetch_deepseek P (deepseek_request message conversationHistory True) = Inr response"
    and "resp_ok response"
    and "resp_body response = Some (chunks, None)"
    and "map (parse_delta P) (frame_payloads chunks) = map Inr deltas"
  shows "\<exists>ys. streamDeepseekResponse P message conversationHistory = (ys, Inr ()) \<and>
           length ys = length (frame_payloads chunks) + 1 \<and>
           (\<forall>k < length deltas.
              ys ! k = \<lparr>content = concat (take (Suc k) deltas), error = None, done = False\<rparr>) \<and>
           (\<forall>k < length deltas. prefix (content (ys ! k)) (content (ys ! Suc k))) \<and>
           last ys = \<lparr>content = concat deltas, error = None, done = True\<rparr>"
proof -
  let ?ys = "map (\<lambda>c. snapshot c False) (running_content [] deltas) @ [snapshot (concat deltas) True]"
  from assms(4) have len: "length (frame_payloads chunks) = length deltas"
    by (metis length_map)
  have run: "streamDeepseekResponse P message conversationHistory = (?ys, Inr ())"
    using assms(1-3) read_loop_ok [OF assms(4), of "[]"]
    by (simp add: streamDeepseekResponse_def gen_try_catch_def)
  have nth: "ys_k = snapshot (concat (take (Suc k) deltas)) False"
    if "k < length deltas" and "ys_k = ?ys ! k" for k ys_k
    using that by (simp add: nth_append running_content_length running_content_nth)
  have final: "?ys ! length deltas = snapshot (concat deltas) True"
    by (simp add: nth_append running_content_length)
  have pre: "prefix (content (?ys ! k)) (content (?ys ! Suc k))" if k: "k < length deltas" for k
  proof (cases "Suc k < length deltas")
    case True
    with k nth [of k] nth [of "Suc k"] show ?thesis
      by (simp add: snapshot_def concat_take_Suc_prefix)
  next
    case False
    with k have "Suc k = length deltas" by simp
    with k nth [of k] final show ?thesis
      by (simp add: snapshot_def concat_take_prefix)
  qed
  show ?thesis
  proof (intro exI conjI)
    show "streamDeepseekResponse P message conversationHistory = (?ys, Inr ())" by (rule run)
    show "length ?ys = length (frame_payloads chunks) + 1"
      by (simp add: len running_content_length)
    show "\<forall>k < length deltas.
            ?ys ! k = \<lparr>content = concat (take (Suc k) deltas), error = None, done = False\<rparr>"
      using nth by (simp add: snapshot_def)
    show "\<forall>k < length deltas. prefix (content (?ys ! k)) (content (?ys ! Suc k))"
      using pre by simp
    show "last ?ys = \<lparr>content = concat deltas, error = None, done = True\<rparr>"
      by (simp add: snapshot_def)
  qed
qed


lemma streamDeepseek_accumulates_example:
  "\<exists>ys. streamDeepseekResponse (sample_providers [delta_frame ''Hi'', delta_frame '' there''] None)
           ''Hello'' [] = (ys, Inr ()) \<and>
        length ys = 3 \<and>
        ys ! 0 = \<lparr>content = ''Hi'', error = None, done = False\<rparr> \<and>
        ys ! 1 = \<lparr>content = ''Hi there'', error = None, done = False\<rparr> \<and>
        last ys = \<lparr>content = ''Hi there'', error = None, done = True\<rparr>"
proof -
  let ?chunks = "[delta_frame ''Hi'', delta_frame '' there'']"
  let ?P = "sample_providers ?chunks None"
  have h1: "fetch_deepseek ?P (deepseek_request ''Hello'' [] True) = Inr (sample_response ?chunks None)"
    by (simp add: sample_providers_def)
  have h2: "resp_ok (sample_response ?chunks None)"
    by (simp add: sample_response_def)
  have h3: "resp_body (sample_response ?chunks None) = Some (?chunks, None)"
    by (simp add: sample_response_def)
  have h4: "map (parse_delta ?P) (frame_payloads ?chunks) = map Inr [''Hi'', '' there'']"
    by (simp add: frame_payloads_sample sample_providers_def sample_parse_values)
  from streamDeepseek_accumulates [OF h1 h2 h3 h4]
  obtain ys where run: "streamDeepseekResponse ?P ''Hello'' [] = (ys, Inr ())"
    and len: "length ys = length (frame_payloads ?chunks) + 1"
    and nth: "\<forall>k < length [''Hi'', '' there''].
                ys ! k = \<lparr>content = concat (take (Suc k) [''Hi'', '' there'']),
                          error = None, done = False\<rparr>"
    and final: "last ys = \<lparr>content = concat [''Hi'', '' there''], error = None, done = True\<rparr>"
    by blast
  from nth have n0: "ys ! 0 = \<lparr>content = ''Hi'', error = None, done = False\<rparr>"
    by simp
  from nth have "ys ! 1 = \<lparr>content = concat (take (Suc 1) [''Hi'', '' there'']),
                          error = None, done = False\<rparr>"
    by (metis length_Cons list.size(3) One_nat_def lessI)
  then have n1: "ys ! 1 = \<lparr>content = ''Hi there'', error = None, done = False\<rparr>"
    by simp
  from len have l3: "length ys = 3"
    by (simp add: frame_payloads_sample)
  from final have f: "last ys = \<lparr>content = ''Hi there'', error = None, done = True\<rparr>"
    by simp
  from run l3 n0 n1 f show ?thesis by blast
qed

text \<open>
  Claim C1 does not hold of the code on every stream the adapter can receive. Upstream
  sends one frame with the delta \<open>Hi\<close>. Read as one chunk, the adapter yields the
  snapshot \<open>Hi\<close> and the final snapshot \<open>Hi\<close>. When the same bytes arrive in two
  reads and the first ends inside the frame, neither chunk holds a line that starts
  with \<open>data: \<close>: the adapter yields no snapshot for the frame, and its final snapshot
  is empty. And when the frame is followed by the end frame \<open>data: [DONE]\<close>, the parse
  of \<open>[DONE]\<close> throws, and the sequence ends with the error snapshot in place of the
  final snapshot \<open>Hi\<close>.
\<close>

theorem streamDeepseek_misses_frames:
  "concat cut_frame = delta_frame ''Hi'' \<and>
   sample_parse_delta (delta_payload ''Hi'') = Inr ''Hi'' \<and>
   streamDeepseekResponse (sample_providers [delta_frame ''Hi''] None) ''Hello'' [] =
     ([\<lparr>content = ''Hi'', error = None, done = False\<rparr>,
       \<lparr>content = ''Hi'', error = None, done = True\<rparr>], Inr ()) \<and>
   streamDeepseekResponse (sample_providers cut_frame None) ''Hello'' [] =
     ([\<lparr>content = [], error = None, done = True\<rparr>], Inr ()) \<and>
   streamDeepseekResponse (sample_providers [delta_frame ''Hi'', done_frame] None) ''Hello'' [] =
     ([\<lparr>content = ''Hi'', error = None, done = False\<rparr>,
       \<lparr>content = ''I apologize, but I encountered an error processing your request.'',
        error = Some (caught_message done_syntax_error), done = True\<rparr>], Inr ())"
  by code_simp

subsection \<open>Failures while streaming\<close>




subsection \<open>Single-shot generation\<close>



subsection \<open>Dispatch on the model identifier\<close>

text \<open>
  Claim C9. For a model identifier other than \<open>gemini\<close> and \<open>deepseek-chat\<close>, whether
  one of the listed models or not, \<open>generateAIResponse\<close> is \<open>generateOpenAIResponse\<close> and
  \<open>streamAIResponse\<close> is the OpenAI branch: both produce a result, both depend on the
  provider set through the OpenAI endpoint only, and the request they send names the
  model \<open>gpt-3.5-turbo\<close>.
\<close>

theorem unknown_model_uses_openai:
  assumes "model \<noteq> ''gemini''" and "model \<noteq> ''deepseek-chat''"
  shows "generateAIResponse P message model conversationHistory =
           generateOpenAIResponse P message conversationHistory \<and>
         streamAIResponse P message model conversationHistory =
           streamOpenAIBranch P message conversationHistory \<and>
         (\<exists>r. generateAIResponse P message model conversationHistory = Inr r) \<and>
         (\<exists>ys. streamAIResponse P message model conversationHistory = (ys, Inr ())) \<and>
         (\<forall>P'. openai_create P' = openai_create P \<longrightarrow>
            generateAIResponse P' message model conversationHistory =
            generateAIResponse P message model conversationHistory) \<and>
         (\<forall>P'. openai_create_stream P' = openai_create_stream P \<longrightarrow>
            streamAIResponse P' message model conversationHistory =
            streamAIResponse P message model conversationHistory) \<and>
         req_model (openai_request message conversationHistory False) = ''gpt-3.5-turbo'' \<and>
         req_model (openai_request message conversationHistory True) = ''gpt-3.5-turbo''"
proof -
  have g: "generateAIResponse Q message model conversationHistory =
      generateOpenAIResponse Q message conversationHistory" for Q
    using assms by (simp add: generateAIResponse_def)
  have s: "streamAIResponse Q message model conversationHistory =
      streamOpenAIBranch Q message conversationHistory" for Q
    using assms by (simp add: streamAIResponse_def)
  have total: "\<exists>r. generateOpenAIResponse P message conversationHistory = Inr r"
    by (simp add: generateOpenAIResponse_def try_catch_def split: sum.splits)
  have ends: "\<exists>ys. streamOpenAIBranch P message conversationHistory = (ys, Inr ())"
    using openai_shape [of P message conversationHistory]
    unfolding stream_shape_def by blast
  have gdep: "generateOpenAIResponse P' message conversationHistory =
      generateOpenAIResponse P message conversationHistory"
    if "openai_create P' = openai_create P" for P'
    using that by (simp add: generateOpenAIResponse_def)
  have sdep: "streamOpenAIBranch P' message conversationHistory =
      streamOpenAIBranch P message conversationHistory"
    if "openai_create_stream P' = openai_create_stream P" for P'
    using that by (simp add: streamOpenAIBranch_def)
  show ?thesis
  proof (intro conjI allI impI)
    show "generateAIResponse P message model conversationHistory =
        generateOpenAIResponse P message conversationHistory" by (rule g)
    show "streamAIResponse P message model conversationHistory =
        streamOpenAIBranch P message conversationHistory" by (rule s)
    show "\<exists>r. generateAIResponse P message model conversationHistory = Inr r"
      using total by (simp only: g)
    show "\<exists>ys. streamAIResponse P message model conversationHistory = (ys, Inr ())"
      using ends by (simp only: s)
    show "generateAIResponse P' message model conversationHistory =
        generateAIResponse P message model conversationHistory"
      if "openai_create P' = openai_create P" for P'
      using gdep [OF that] by (simp only: g)
    show "streamAIResponse P' message model conversationHistory =
        streamAIResponse P message model conversationHistory"
      if "openai_create_stream P' = openai_create_stream P" for P'
      using sdep [OF that] by (simp only: s)
    show "req_model (openai_request message conversationHistory False) = ''gpt-3.5-turbo''"
      by (simp add: openai_request_def)
    show "req_model (openai_request message conversationHistory True) = ''gpt-3.5-turbo''"
      by (simp add: openai_request_def)
  qed
qed

theorem unknown_model_uses_openai_witness:
  "generateAIResponse (sample_providers [] None) ''Hello'' ''gpt-4'' [] =
     Inr \<lparr>content = ''Hello!'', error = None\<rparr> \<and>
   streamAIResponse (sample_providers [] None) ''Hello'' ''gpt-4'' [] =
     ([\<lparr>content = ''Hel'', error = None, done = False\<rparr>,
       \<lparr>content = ''Hello!'', error = None, done = False\<rparr>,
       \<lparr>content = ''Hello!'', error = None, done = True\<rparr>], Inr ())"
proof -
  have m: "''gpt-4'' \<noteq> ''gemini''" "''gpt-4'' \<noteq> ''deepseek-chat''" by simp_all
  have a: "generateOpenAIResponse (sample_providers [] None) ''Hello'' [] =
      Inr \<lparr>content = ''Hello!'', error = None\<rparr>"
    by (simp add: generateOpenAIResponse_def sample_providers_def try_catch_def
        first_message_content_def)
  have b: "streamOpenAIBranch (sample_providers [] None) ''Hello'' [] =
     ([\<lparr>content = ''Hel'', error = None, done = False\<rparr>,
       \<lparr>content = ''Hello!'', error = None, done = False\<rparr>,
       \<lparr>content = ''Hello!'', error = None, done = True\<rparr>], Inr ())"
    by (simp add: streamOpenAIBranch_def sample_providers_def gen_try_catch_def
        chunk_delta_def snapshot_def)
  from unknown_model_uses_openai [OF m, of "sample_providers [] None" "''Hello''" "[]"]
  show ?thesis by (simp add: a b)
qed

section \<open>Properties of the authentication module\<close>

lemma call_rejected:
  "\<not> passes_validation c \<Longrightarrow> snd (call c st) = st \<and> (\<exists>m. fst (call c st) = Rejected (Error m))"
  by (cases c) (auto simp add: call_def signIn_def signUp_def passes_validation_def)

lemma call_in_flight:
  "authRequest st = Some r \<Longrightarrow>
   snd (call c st) = st \<and> (passes_validation c \<longrightarrow> fst (call c st) = Pending r)"
  by (cases c) (auto simp add: call_def signIn_def signUp_def passes_validation_def)

lemma call_idle:
  "authRequest st = None \<Longrightarrow> passes_validation c \<Longrightarrow>
   fst (call c st) = Pending (length (auth_issued st)) \<and>
   authRequest (snd (call c st)) = Some (length (auth_issued st)) \<and>
   length (auth_issued (snd (call c st))) = length (auth_issued st) + 1"
  by (cases c) (auto simp add: call_def signIn_def signUp_def passes_validation_def)

text \<open>Once the request in flight has settled, the next valid call sends a new one.\<close>

lemma call_after_settled:
  "passes_validation c \<Longrightarrow>
   fst (call c (settled st)) = Pending (length (auth_issued st)) \<and>
   length (auth_issued (snd (call c (settled st)))) = length (auth_issued st) + 1"
  using call_idle [of "settled st" c] by (simp add: settled_def)

lemma run_calls_in_flight:
  "authRequest st = Some r \<Longrightarrow> run_calls cs st = (map (\<lambda>c. fst (call c st)) cs, st)"
proof (induction cs)
  case Nil
  then show ?case by simp
next
  case (Cons c cs)
  obtain r0 st1 where c: "call c st = (r0, st1)" by (cases "call c st")
  with call_in_flight [OF Cons.prems, of c] have "st1 = st" by simp
  with Cons c show ?case by simp
qed

lemma run_calls_length: "length (fst (run_calls cs st)) = length cs"
proof (induction cs arbitrary: st)
  case Nil
  then show ?case by simp
next
  case (Cons c cs)
  obtain r st1 where c: "call c st = (r, st1)" by (cases "call c st")
  obtain rs st2 where rest: "run_calls cs st1 = (rs, st2)" by (cases "run_calls cs st1")
  from Cons [of st1] c rest show ?case by simp
qed

lemma run_calls_rejected:
  "i < length cs \<Longrightarrow> \<not> passes_validation (cs ! i) \<Longrightarrow>
   \<exists>m. fst (run_calls cs st) ! i = Rejected (Error m)"
proof (induction cs arbitrary: st i)
  case Nil
  then show ?case by simp
next
  case (Cons c cs)
  obtain r st1 where c: "call c st = (r, st1)" by (cases "call c st")
  obtain rs st2 where rest: "run_calls cs st1 = (rs, st2)" by (cases "run_calls cs st1")
  show ?case
  proof (cases i)
    case 0
    with Cons.prems call_rejected [of c st] c rest show ?thesis by simp
  next
    case (Suc j)
    with Cons.prems Cons.IH [of j st1] c rest show ?thesis by simp
  qed
qed

lemma run_calls_idle:
  "authRequest st = None \<Longrightarrow>
   length (auth_issued (snd (run_calls cs st))) \<le> length (auth_issued st) + 1 \<and>
   (\<forall>i < length cs. passes_validation (cs ! i) \<longrightarrow>
      fst (run_calls cs st) ! i = Pending (length (auth_issued st)))"
proof (induction cs arbitrary: st)
  case Nil
  then show ?case by simp
next
  case (Cons c cs)
  obtain r st1 where c: "call c st = (r, st1)" by (cases "call c st")
  show ?case
  proof (cases "passes_validation c")
    case True
    from call_idle [OF Cons.prems True] c
    have r: "r = Pending (length (auth_issued st))"
      and st1: "authRequest st1 = Some (length (auth_issued st))"
      and len: "length (auth_issued st1) = length (auth_issued st) + 1"
      by simp_all
    note run = run_calls_in_flight [OF st1, of cs]
    have "fst (run_calls (c # cs) st) ! i = Pending (length (auth_issued st))"
      if "i < length (c # cs)" and "passes_validation ((c # cs) ! i)" for i
    proof (cases i)
      case 0
      with c run r show ?thesis by simp
    next
      case (Suc j)
      with that c run call_in_flight [OF st1, of "cs ! j"] show ?thesis by simp
    qed
    moreover have "length (auth_issued (snd (run_calls (c # cs) st))) \<le> length (auth_issued st) + 1"
      using c run len by simp
    ultimately show ?thesis by blast
  next
    case False
    from call_rejected [OF False, of st] c have st1: "st1 = st" by simp
    obtain rs st2 where rest: "run_calls cs st = (rs, st2)" by (cases "run_calls cs st")
    from Cons.IH [OF Cons.prems] rest
    have len: "length (auth_issued st2) \<le> length (auth_issued st) + 1"
      and ok: "\<forall>i < length cs. passes_validation (cs ! i) \<longrightarrow>
                 rs ! i = Pending (length (auth_issued st))"
      by simp_all
    have "fst (run_calls (c # cs) st) ! i = Pending (length (auth_issued st))"
      if "i < length (c # cs)" and "passes_validation ((c # cs) ! i)" for i
    proof (cases i)
      case 0
      with that False show ?thesis by simp
    next
      case (Suc j)
      with that ok c st1 rest show ?thesis by simp
    qed
    moreover have "length (auth_issued (snd (run_calls (c # cs) st))) \<le> length (auth_issued st) + 1"
      using c st1 rest len by simp
    ultimately show ?thesis by blast
  qed
qed

text \<open>
  Claim C8, as stated, fails: while a sign-in is in flight, a call with an empty email,
  or a sign-up with a password of five characters, is rejected with its validation error;
  it does not receive the resolution of the outstanding request.
\<close>

theorem invalid_caller_not_coalesced:
  "authRequest in_flight = Some 0 \<and>
   fst (signIn [] ''secret'' in_flight) = Rejected (Error ''Email and password are required'') \<and>
   fst (signIn [] ''secret'' in_flight) \<noteq> Pending 0 \<and>
   fst (signUp ''bob@example.org'' ''12345'' in_flight) =
     Rejected (Error ''Password must be at least 6 characters long'') \<and>
   fst (signUp ''bob@example.org'' ''12345'' in_flight) \<noteq> Pending 0"
  by (simp add: in_flight_def initial_auth_def signIn_def signUp_def)

text \<open>
  Claim C8, amended. For calls \<open>cs\<close> to \<open>signIn\<close> and \<open>signUp\<close> made with no promise
  settling in between, at most one request is sent to the authentication service. If a
  request \<open>r\<close> is in flight before the calls, none is sent, \<open>authRequest\<close> stays \<open>r\<close>, and
  every call whose arguments pass validation gets the promise of \<open>r\<close>; if none is in
  flight, every such call gets the promise of the one request that the first of them
  sends. A call whose arguments do not pass validation is rejected with an error of its
  own.
\<close>

theorem coalesced_auth_calls:
  assumes "run_calls cs st = (rs, st')"
  shows "length rs = length cs \<and>
         length (auth_issued st') \<le> length (auth_issued st) + 1 \<and>
         (\<forall>r. authRequest st = Some r \<longrightarrow>
            auth_issued st' = auth_issued st \<and> authRequest st' = Some r \<and>
            (\<forall>i < length cs. passes_validation (cs ! i) \<longrightarrow> rs ! i = Pending r)) \<and>
         (authRequest st = None \<longrightarrow>
            (\<forall>i < length cs. passes_validation (cs ! i) \<longrightarrow>
               rs ! i = Pending (length (auth_issued st)))) \<and>
         (\<forall>i < length cs. \<not> passes_validation (cs ! i) \<longrightarrow> (\<exists>m. rs ! i = Rejected (Error m)))"
proof (intro conjI allI impI)
  show "length rs = length cs"
    using run_calls_length [of cs st] assms by simp
  show "length (auth_issued st') \<le> length (auth_issued st) + 1"
  proof (cases "authRequest st")
    case None
    from run_calls_idle [OF None, of cs] assms show ?thesis by simp
  next
    case (Some r)
    from run_calls_in_flight [OF Some, of cs] assms show ?thesis by simp
  qed
  show "auth_issued st' = auth_issued st" if "authRequest st = Some r" for r
    using run_calls_in_flight [OF that, of cs] assms by simp
  show "authRequest st' = Some r" if "authRequest st = Some r" for r
    using run_calls_in_flight [OF that, of cs] assms that by simp
  show "rs ! i = Pending r"
    if "authRequest st = Some r" and "i < length cs" and "passes_validation (cs ! i)" for r i
    using run_calls_in_flight [OF that(1), of cs] call_in_flight [OF that(1), of "cs ! i"]
      assms that(2,3) by simp
  show "rs ! i = Pending (length (auth_issued st))"
    if "authRequest st = None" and "i < length cs" and "passes_validation (cs ! i)" for i
    using run_calls_idle [OF that(1), of cs] assms that(2,3) by simp
  show "\<exists>m. rs ! i = Rejected (Error m)"
    if "i < length cs" and "\<not> passes_validation (cs ! i)" for i
    using run_calls_rejected [OF that, of st] assms by simp
qed



theorem coalesced_auth_calls_witness:
  "authRequest in_flight = Some 0 \<and>
   passes_validation (sample_calls ! 0) \<and> passes_validation (sample_calls ! 1) \<and>
   \<not> passes_validation (sample_calls ! 2) \<and>
   fst (run_calls sample_calls in_flight) ! 0 = Pending 0 \<and>
   fst (run_calls sample_calls in_flight) ! 1 = Pending 0 \<and>
   (\<exists>m. fst (run_calls sample_calls in_flight) ! 2 = Rejected (Error m)) \<and>
   auth_issued (snd (run_calls sample_calls in_flight)) = auth_issued in_flight \<and>
   length (auth_issued (snd (run_calls sample_calls in_flight))) = 1"
proof -
  have r: "run_calls sample_calls in_flight =
      (fst (run_calls sample_calls in_flight), snd (run_calls sample_calls in_flight))"
    by simp
  have a: "authRequest in_flight = Some 0" and n: "length (auth_issued in_flight) = 1"
    by (simp_all add: in_flight_def initial_auth_def signIn_def)
  have l: "length sample_calls = 4" by (simp add: sample_calls_def)
  have v: "passes_validation (sample_calls ! 0)" "passes_validation (sample_calls ! 1)"
    "\<not> passes_validation (sample_calls ! 2)"
    by (simp_all add: sample_calls_def passes_validation_def)
  note t = coalesced_auth_calls [OF r]
  from t a have same: "auth_issued (snd (run_calls sample_calls in_flight)) = auth_issued in_flight"
    by blast
  from t a l v(1) have p0: "fst (run_calls sample_calls in_flight) ! 0 = Pending 0"
    by (metis zero_less_numeral)
  from t a l v(2) have p1: "fst (run_calls sample_calls in_flight) ! 1 = Pending 0"
    by (metis one_less_numeral_iff semiring_norm(76))
  have "(2::nat) < 4" by simp
  with t l v(3) have p2: "\<exists>m. fst (run_calls sample_calls in_flight) ! 2 = Rejected (Error m)"
    by metis
  from a v p0 p1 p2 same n show ?thesis by simp
qed


section \<open>Properties of the conversation relay\<close>

subsection \<open>Creating a conversation\<close>

lemma insert_conversation_no_session:
  "db_auth_uid db = None \<Longrightarrow>
   \<exists>e. insert_conversation env title model user_id db = (Inl e, db)"
  by (simp add: insert_conversation_def split: option.splits)

lemma createConversation_not_AuthRequired:
  "fst (createConversation env title model db) \<noteq> Inl AuthRequired"
  by (simp add: createConversation_def split: prod.splits sum.splits)

text \<open>
  Claim C5, as stated, fails: without a session \<open>createConversation\<close> still sends the
  insert, and the error it throws is the one the store answers with (the row-level
  security violation), not \<open>AuthRequired\<close>.
\<close>

theorem createConversation_no_session_store_error:
  "createConversation (delivered ''c9'' ''2024-01-03'') ''New Chat'' ''gpt-3.5-turbo'' signed_out_db =
     (Inl (StoreError (rls_violation ''conversations'')), signed_out_db) \<and>
   fst (createConversation (delivered ''c9'' ''2024-01-03'') ''New Chat'' ''gpt-3.5-turbo''
          signed_out_db) \<noteq> Inl AuthRequired"
  by (simp add: createConversation_def insert_conversation_def getUser_id_def delivered_def
      signed_out_db_def)

text \<open>
  Claim C5, amended. \<open>createConversation\<close> never fails with \<open>AuthRequired\<close>. Without a
  session it fails with the error of the store for the insert it sends, and the store is
  unchanged. With a session whose user has a profile row, and a request that reaches the
  store, it appends a conversation owned by that user and returns the stored row, with
  the identifier and the timestamps the server assigns.
\<close>

theorem createConversation_outcomes:
  "fst (createConversation env title model db) \<noteq> Inl AuthRequired \<and>
   (db_auth_uid db = None \<longrightarrow>
      (\<exists>e. createConversation env title model db = (Inl (StoreError e), db))) \<and>
   (\<forall>uid. db_auth_uid db = Some uid \<and> uid \<in> set (db_profiles db) \<and> transport_error env = None \<longrightarrow>
      createConversation env title model db =
        (Inr \<lparr>c_id = fresh_id env, c_title = title, c_user_id = uid, c_model = model,
               c_created_at = now env, c_last_message = None, c_updated_at = now env\<rparr>,
         db\<lparr>db_conversations := db_conversations db @
              [\<lparr>c_id = fresh_id env, c_title = title, c_user_id = uid, c_model = model,
                c_created_at = now env, c_last_message = None, c_updated_at = now env\<rparr>]\<rparr>))"
proof (intro conjI allI impI)
  show "fst (createConversation env title model db) \<noteq> Inl AuthRequired"
    by (rule createConversation_not_AuthRequired)
  show "\<exists>e. createConversation env title model db = (Inl (StoreError e), db)"
    if "db_auth_uid db = None"
    using insert_conversation_no_session [OF that, of env title model "getUser_id db"]
    by (auto simp add: createConversation_def)
  show "createConversation env title model db =
        (Inr \<lparr>c_id = fresh_id env, c_title = title, c_user_id = uid, c_model = model,
               c_created_at = now env, c_last_message = None, c_updated_at = now env\<rparr>,
         db\<lparr>db_conversations := db_conversations db @
              [\<lparr>c_id = fresh_id env, c_title = title, c_user_id = uid, c_model = model,
                c_created_at = now env, c_last_message = None, c_updated_at = now env\<rparr>]\<rparr>)"
    if "db_auth_uid db = Some uid \<and> uid \<in> set (db_profiles db) \<and> transport_error env = None"
    for uid
    using that by (simp add: createConversation_def insert_conversation_def getUser_id_def)
qed

theorem createConversation_outcomes_witness:
  "(\<exists>e. createConversation (delivered ''c9'' ''2024-01-03'') ''New Chat'' ''gemini'' signed_out_db =
        (Inl (StoreError e), signed_out_db)) \<and>
   createConversation (delivered ''c9'' ''2024-01-03'') ''New Chat'' ''gemini'' signed_in_db =
     (Inr \<lparr>c_id = ''c9'', c_title = ''New Chat'', c_user_id = ''u1'', c_model = ''gemini'',
            c_created_at = ''2024-01-03'', c_last_message = None, c_updated_at = ''2024-01-03''\<rparr>,
      signed_in_db\<lparr>db_conversations := [stored_conversation,
         \<lparr>c_id = ''c9'', c_title = ''New Chat'', c_user_id = ''u1'', c_model = ''gemini'',
          c_created_at = ''2024-01-03'', c_last_message = None, c_updated_at = ''2024-01-03''\<rparr>]\<rparr>)"
proof -
  have a: "db_auth_uid signed_out_db = None" by (simp add: signed_out_db_def)
  have b: "db_auth_uid signed_in_db = Some ''u1'' \<and> ''u1'' \<in> set (db_profiles signed_in_db) \<and>
      transport_error (delivered ''c9'' ''2024-01-03'') = None"
    by (simp add: signed_in_db_def delivered_def)
  have c: "db_conversations signed_in_db = [stored_conversation]"
    by (simp add: signed_in_db_def)
  have d: "fresh_id (delivered ''c9'' ''2024-01-03'') = ''c9''"
    "now (delivered ''c9'' ''2024-01-03'') = ''2024-01-03''"
    by (simp_all add: delivered_def)
  from createConversation_outcomes [of "delivered ''c9'' ''2024-01-03''" "''New Chat''" "''gemini''"
      signed_out_db] a
  have first: "\<exists>e. createConversation (delivered ''c9'' ''2024-01-03'') ''New Chat'' ''gemini''
      signed_out_db = (Inl (StoreError e), signed_out_db)"
    by blast
  from createConversation_outcomes [of "delivered ''c9'' ''2024-01-03''" "''New Chat''" "''gemini''"
      signed_in_db] b
  have "createConversation (delivered ''c9'' ''2024-01-03'') ''New Chat'' ''gemini'' signed_in_db =
        (Inr \<lparr>c_id = fresh_id (delivered ''c9'' ''2024-01-03''), c_title = ''New Chat'',
               c_user_id = ''u1'', c_model = ''gemini'',
               c_created_at = now (delivered ''c9'' ''2024-01-03''), c_last_message = None,
               c_updated_at = now (delivered ''c9'' ''2024-01-03'')\<rparr>,
         signed_in_db\<lparr>db_conversations := db_conversations signed_in_db @
              [\<lparr>c_id = fresh_id (delivered ''c9'' ''2024-01-03''), c_title = ''New Chat'',
                c_user_id = ''u1'', c_model = ''gemini'',
                c_created_at = now (delivered ''c9'' ''2024-01-03''), c_last_message = None,
                c_updated_at = now (delivered ''c9'' ''2024-01-03'')\<rparr>]\<rparr>)"
    by blast
  then have second: "createConversation (delivered ''c9'' ''2024-01-03'') ''New Chat'' ''gemini''
      signed_in_db =
     (Inr \<lparr>c_id = ''c9'', c_title = ''New Chat'', c_user_id = ''u1'', c_model = ''gemini'',
            c_created_at = ''2024-01-03'', c_last_message = None, c_updated_at = ''2024-01-03''\<rparr>,
      signed_in_db\<lparr>db_conversations := [stored_conversation,
         \<lparr>c_id = ''c9'', c_title = ''New Chat'', c_user_id = ''u1'', c_model = ''gemini'',
          c_created_at = ''2024-01-03'', c_last_message = None, c_updated_at = ''2024-01-03''\<rparr>]\<rparr>)"
    by (simp only: c d append_Cons append_Nil)
  from first second show ?thesis by blast
qed


subsection \<open>Sending a message\<close>

lemma update_last_message_frame:
  "db_auth_uid (snd (update_last_message env cid msg db)) = db_auth_uid db"
  "db_profiles (snd (update_last_message env cid msg db)) = db_profiles db"
  "db_messages (snd (update_last_message env cid msg db)) = db_messages db"
  by (simp_all add: update_last_message_def split: option.splits)

lemma insert_message_frame:
  "db_auth_uid (snd (insert_message env cid msg r fileUrl db)) = db_auth_uid db"
  "db_profiles (snd (insert_message env cid msg r fileUrl db)) = db_profiles db"
  "db_conversations (snd (insert_message env cid msg r fileUrl db)) = db_conversations db"
  by (simp_all add: insert_message_def split: option.splits)

lemma owns_conversation_keys:
  "owns_conversation d cid =
     (\<exists>u. db_auth_uid d = Some u \<and>
          (cid, u) \<in> set (map (\<lambda>c. (c_id c, c_user_id c)) (db_conversations d)))"
  by (cases "db_auth_uid d") (auto simp add: owns_conversation_def list_ex_iff)

lemma owns_conversation_cong:
  assumes "db_auth_uid db' = db_auth_uid db"
    and "map (\<lambda>c. (c_id c, c_user_id c)) (db_conversations db') =
      map (\<lambda>c. (c_id c, c_user_id c)) (db_conversations db)"
  shows "owns_conversation db' cid = owns_conversation db cid"
  by (simp only: owns_conversation_keys assms)

lemma update_keeps_keys:
  "map (\<lambda>c. (c_id c, c_user_id c)) (db_conversations (snd (update_last_message env cid msg db))) =
   map (\<lambda>c. (c_id c, c_user_id c)) (db_conversations db)"
  by (simp add: update_last_message_def split: option.splits)

lemma owns_after_update:
  "owns_conversation (snd (update_last_message env cid msg db)) cid' = owns_conversation db cid'"
  by (rule owns_conversation_cong) (simp_all add: update_last_message_frame update_keeps_keys)

lemma insert_after_update:
  "fst (insert_message envM cid msg r fileUrl (snd (update_last_message envU cid' msg' db))) =
     fst (insert_message envM cid msg r fileUrl db) \<and>
   db_messages (snd (insert_message envM cid msg r fileUrl (snd (update_last_message envU cid' msg' db)))) =
     db_messages (snd (insert_message envM cid msg r fileUrl db))"
  by (simp add: insert_message_def owns_after_update update_last_message_frame split: option.splits)

lemma update_after_insert:
  "fst (update_last_message envU cid' msg' (snd (insert_message envM cid msg r fileUrl db))) =
     fst (update_last_message envU cid' msg' db) \<and>
   db_conversations (snd (update_last_message envU cid' msg' (snd (insert_message envM cid msg r fileUrl db)))) =
     db_conversations (snd (update_last_message envU cid' msg' db))"
  by (simp add: update_last_message_def insert_message_frame split: option.splits)

lemma sendMessage_result:
  "fst (sendMessage envM envU insert_first cid msg r fileUrl db) =
     (case fst (insert_message envM cid msg r fileUrl db) of
        Inl e \<Rightarrow> Inl (StoreError e)
      | Inr row \<Rightarrow>
          (case fst (update_last_message envU cid msg db) of
             Some e \<Rightarrow> Inl (StoreError e)
           | None \<Rightarrow> Inr row))"
proof (cases insert_first)
  case True
  obtain mr db1 where m: "insert_message envM cid msg r fileUrl db = (mr, db1)"
    by (cases "insert_message envM cid msg r fileUrl db")
  obtain ur db2 where u: "update_last_message envU cid msg db1 = (ur, db2)"
    by (cases "update_last_message envU cid msg db1")
  from update_after_insert [of envU cid msg envM cid msg r fileUrl db] m u
  have "fst (update_last_message envU cid msg db) = ur" by simp
  with True m u show ?thesis
    by (simp add: sendMessage_def split: sum.splits option.splits)
next
  case False
  obtain ur db1 where u: "update_last_message envU cid msg db = (ur, db1)"
    by (cases "update_last_message envU cid msg db")
  obtain mr db2 where m: "insert_message envM cid msg r fileUrl db1 = (mr, db2)"
    by (cases "insert_message envM cid msg r fileUrl db1")
  from insert_after_update [of envM cid msg r fileUrl envU cid msg db] m u
  have "fst (insert_message envM cid msg r fileUrl db) = mr" by simp
  with False m u show ?thesis
    by (simp add: sendMessage_def split: sum.splits option.splits)
qed

lemma sendMessage_store:
  "db_messages (snd (sendMessage envM envU insert_first cid msg r fileUrl db)) =
     db_messages (snd (insert_message envM cid msg r fileUrl db)) \<and>
   db_conversations (snd (sendMessage envM envU insert_first cid msg r fileUrl db)) =
     db_conversations (snd (update_last_message envU cid msg db)) \<and>
   db_auth_uid (snd (sendMessage envM envU insert_first cid msg r fileUrl db)) = db_auth_uid db \<and>
   db_profiles (snd (sendMessage envM envU insert_first cid msg r fileUrl db)) = db_profiles db"
proof (cases insert_first)
  case True
  obtain mr db1 where m: "insert_message envM cid msg r fileUrl db = (mr, db1)"
    by (cases "insert_message envM cid msg r fileUrl db")
  obtain ur db2 where u: "update_last_message envU cid msg db1 = (ur, db2)"
    by (cases "update_last_message envU cid msg db1")
  have s: "snd (sendMessage envM envU insert_first cid msg r fileUrl db) = db2"
    using True m u by (simp add: sendMessage_def split: sum.splits option.splits)
  from update_after_insert [of envU cid msg envM cid msg r fileUrl db]
    update_last_message_frame [of envU cid msg db1]
    insert_message_frame [of envM cid msg r fileUrl db] m u
  show ?thesis unfolding s by simp
next
  case False
  obtain ur db1 where u: "update_last_message envU cid msg db = (ur, db1)"
    by (cases "update_last_message envU cid msg db")
  obtain mr db2 where m: "insert_message envM cid msg r fileUrl db1 = (mr, db2)"
    by (cases "insert_message envM cid msg r fileUrl db1")
  have s: "snd (sendMessage envM envU insert_first cid msg r fileUrl db) = db2"
    using False m u by (simp add: sendMessage_def split: sum.splits option.splits)
  from insert_after_update [of envM cid msg r fileUrl envU cid msg db]
    insert_message_frame [of envM cid msg r fileUrl db1]
    update_last_message_frame [of envU cid msg db] m u
  show ?thesis unfolding s by simp
qed

lemma insert_message_row:
  "fst (insert_message env cid msg r fileUrl db) = Inr row \<Longrightarrow>
   row = \<lparr>m_id = fresh_id env, m_conversation_id = cid, m_content = msg, m_role = r,
          m_created_at = now env, m_file_url = fileUrl, m_updated_at = now env\<rparr> \<and>
   db_messages (snd (insert_message env cid msg r fileUrl db)) = db_messages db @ [row]"
  by (auto simp add: insert_message_def split: option.splits if_splits)

lemma insert_message_failed:
  "fst (insert_message env cid msg r fileUrl db) = Inl e \<Longrightarrow>
   db_messages (snd (insert_message env cid msg r fileUrl db)) = db_messages db"
  by (auto simp add: insert_message_def split: option.splits if_splits)

lemma update_failed:
  "fst (update_last_message env cid msg db) = Some e \<Longrightarrow>
   db_conversations (snd (update_last_message env cid msg db)) = db_conversations db"
  by (auto simp add: update_last_message_def split: option.splits)

lemma update_applied:
  "fst (update_last_message env cid msg db) = None \<Longrightarrow>
   db_conversations (snd (update_last_message env cid msg db)) =
     map (\<lambda>c. if c_id c = cid \<and> Some (c_user_id c) = db_auth_uid db
               then c\<lparr>c_last_message := Some msg, c_updated_at := now env\<rparr> else c)
         (db_conversations db)"
  by (auto simp add: update_last_message_def split: option.splits)

text \<open>
  Claim C4. \<open>sendMessage\<close> issues the insert of the message row and the update of the
  conversation's last message together: whichever of the two the store applies first,
  and whether the other fails or not, each has its effect on the store. If the insert
  fails, its error is thrown (also when the update fails too) and the update's effect
  stays; if the insert succeeds and the update fails, the update's error is thrown and
  the inserted row stays; if both succeed, the inserted row is returned, with the
  identifier and timestamps the server assigned, and the conversation carries the new
  last message.
\<close>

theorem sendMessage_outcomes:
  "(\<forall>e. fst (insert_message envM cid msg r fileUrl db) = Inl e \<longrightarrow>
      fst (sendMessage envM envU insert_first cid msg r fileUrl db) = Inl (StoreError e) \<and>
      db_messages (snd (sendMessage envM envU insert_first cid msg r fileUrl db)) = db_messages db \<and>
      db_conversations (snd (sendMessage envM envU insert_first cid msg r fileUrl db)) =
        db_conversations (snd (update_last_message envU cid msg db))) \<and>
   (\<forall>row e. fst (insert_message envM cid msg r fileUrl db) = Inr row \<and>
        fst (update_last_message envU cid msg db) = Some e \<longrightarrow>
      fst (sendMessage envM envU insert_first cid msg r fileUrl db) = Inl (StoreError e) \<and>
      db_messages (snd (sendMessage envM envU insert_first cid msg r fileUrl db)) =
        db_messages db @ [row] \<and>
      db_conversations (snd (sendMessage envM envU insert_first cid msg r fileUrl db)) =
        db_conversations db) \<and>
   (\<forall>row. fst (insert_message envM cid msg r fileUrl db) = Inr row \<and>
        fst (update_last_message envU cid msg db) = None \<longrightarrow>
      fst (sendMessage envM envU insert_first cid msg r fileUrl db) = Inr row \<and>
      row = \<lparr>m_id = fresh_id envM, m_conversation_id = cid, m_content = msg, m_role = r,
             m_created_at = now envM, m_file_url = fileUrl, m_updated_at = now envM\<rparr> \<and>
      db_messages (snd (sendMessage envM envU insert_first cid msg r fileUrl db)) =
        db_messages db @ [row] \<and>
      db_conversations (snd (sendMessage envM envU insert_first cid msg r fileUrl db)) =
        map (\<lambda>c. if c_id c = cid \<and> Some (c_user_id c) = db_auth_uid db
                  then c\<lparr>c_last_message := Some msg, c_updated_at := now envU\<rparr> else c)
            (db_conversations db)) \<and>
   (fst (update_last_message envU cid msg db) = None \<longrightarrow>
      db_conversations (snd (sendMessage envM envU insert_first cid msg r fileUrl db)) =
        map (\<lambda>c. if c_id c = cid \<and> Some (c_user_id c) = db_auth_uid db
                  then c\<lparr>c_last_message := Some msg, c_updated_at := now envU\<rparr> else c)
            (db_conversations db))"
proof -
  note res = sendMessage_result [of envM envU insert_first cid msg r fileUrl db]
  note sto = sendMessage_store [of envM envU insert_first cid msg r fileUrl db]
  show ?thesis
  proof (intro conjI allI impI)
    fix e
    assume f: "fst (insert_message envM cid msg r fileUrl db) = Inl e"
    show "fst (sendMessage envM envU insert_first cid msg r fileUrl db) = Inl (StoreError e)"
      using res f by simp
    show "db_messages (snd (sendMessage envM envU insert_first cid msg r fileUrl db)) = db_messages db"
      using sto insert_message_failed [OF f] by simp
    show "db_conversations (snd (sendMessage envM envU insert_first cid msg r fileUrl db)) =
        db_conversations (snd (update_last_message envU cid msg db))"
      using sto by simp
  next
    fix row e
    assume a: "fst (insert_message envM cid msg r fileUrl db) = Inr row \<and>
        fst (update_last_message envU cid msg db) = Some e"
    then have m: "fst (insert_message envM cid msg r fileUrl db) = Inr row"
      and u: "fst (update_last_message envU cid msg db) = Some e" by simp_all
    show "fst (sendMessage envM envU insert_first cid msg r fileUrl db) = Inl (StoreError e)"
      using res m u by simp
    show "db_messages (snd (sendMessage envM envU insert_first cid msg r fileUrl db)) =
        db_messages db @ [row]"
      using sto insert_message_row [OF m] by simp
    show "db_conversations (snd (sendMessage envM envU insert_first cid msg r fileUrl db)) =
        db_conversations db"
      using sto update_failed [OF u] by simp
  next
    fix row
    assume a: "fst (insert_message envM cid msg r fileUrl db) = Inr row \<and>
        fst (update_last_message envU cid msg db) = None"
    then have m: "fst (insert_message envM cid msg r fileUrl db) = Inr row"
      and u: "fst (update_last_message envU cid msg db) = None" by simp_all
    show "fst (sendMessage envM envU insert_first cid msg r fileUrl db) = Inr row"
      using res m u by simp
    show "row = \<lparr>m_id = fresh_id envM, m_conversation_id = cid, m_content = msg, m_role = r,
             m_created_at = now envM, m_file_url = fileUrl, m_updated_at = now envM\<rparr>"
      using insert_message_row [OF m] by simp
    show "db_messages (snd (sendMessage envM envU insert_first cid msg r fileUrl db)) =
        db_messages db @ [row]"
      using sto insert_message_row [OF m] by simp
    show "db_conversations (snd (sendMessage envM envU insert_first cid msg r fileUrl db)) =
        map (\<lambda>c. if c_id c = cid \<and> Some (c_user_id c) = db_auth_uid db
                  then c\<lparr>c_last_message := Some msg, c_updated_at := now envU\<rparr> else c)
            (db_conversations db)"
      using sto update_applied [OF u] by simp
  next
    assume u: "fst (update_last_message envU cid msg db) = None"
    show "db_conversations (snd (sendMessage envM envU insert_first cid msg r fileUrl db)) =
        map (\<lambda>c. if c_id c = cid \<and> Some (c_user_id c) = db_auth_uid db
                  then c\<lparr>c_last_message := Some msg, c_updated_at := now envU\<rparr> else c)
            (db_conversations db)"
      using sto update_applied [OF u] by simp
  qed
qed


theorem sendMessage_outcomes_witness:
  "fst (insert_message (delivered ''m7'' ''2024-01-04'') ''c1'' ''Hello'' RoleUser None signed_in_db) =
     Inr \<lparr>m_id = ''m7'', m_conversation_id = ''c1'', m_content = ''Hello'', m_role = RoleUser,
           m_created_at = ''2024-01-04'', m_file_url = None, m_updated_at = ''2024-01-04''\<rparr> \<and>
   fst (update_last_message (lost ''x'' ''2024-01-04'') ''c1'' ''Hello'' signed_in_db) =
     Some (PostgrestError [] ''TypeError: Failed to fetch'') \<and>
   (\<forall>insert_first.
      fst (sendMessage (delivered ''m7'' ''2024-01-04'') (lost ''x'' ''2024-01-04'') insert_first
             ''c1'' ''Hello'' RoleUser None signed_in_db) =
        Inl (StoreError (PostgrestError [] ''TypeError: Failed to fetch'')) \<and>
      db_messages (snd (sendMessage (delivered ''m7'' ''2024-01-04'') (lost ''x'' ''2024-01-04'')
             insert_first ''c1'' ''Hello'' RoleUser None signed_in_db)) =
        [\<lparr>m_id = ''m7'', m_conversation_id = ''c1'', m_content = ''Hello'', m_role = RoleUser,
          m_created_at = ''2024-01-04'', m_file_url = None, m_updated_at = ''2024-01-04''\<rparr>] \<and>
      db_conversations (snd (sendMessage (delivered ''m7'' ''2024-01-04'') (lost ''x'' ''2024-01-04'')
             insert_first ''c1'' ''Hello'' RoleUser None signed_in_db)) = [stored_conversation])"
proof -
  let ?row = "\<lparr>m_id = ''m7'', m_conversation_id = ''c1'', m_content = ''Hello'', m_role = RoleUser,
           m_created_at = ''2024-01-04'', m_file_url = None, m_updated_at = ''2024-01-04''\<rparr>"
  let ?e = "PostgrestError [] ''TypeError: Failed to fetch''"
  have m: "fst (insert_message (delivered ''m7'' ''2024-01-04'') ''c1'' ''Hello'' RoleUser None
      signed_in_db) = Inr ?row"
    by (simp add: insert_message_def delivered_def signed_in_db_def owns_conversation_def
        stored_conversation_def)
  have u: "fst (update_last_message (lost ''x'' ''2024-01-04'') ''c1'' ''Hello'' signed_in_db) = Some ?e"
    by (simp add: update_last_message_def lost_def)
  have d: "db_messages signed_in_db = []" "db_conversations signed_in_db = [stored_conversation]"
    by (simp_all add: signed_in_db_def)
  have "fst (sendMessage (delivered ''m7'' ''2024-01-04'') (lost ''x'' ''2024-01-04'') insert_first
             ''c1'' ''Hello'' RoleUser None signed_in_db) = Inl (StoreError ?e) \<and>
      db_messages (snd (sendMessage (delivered ''m7'' ''2024-01-04'') (lost ''x'' ''2024-01-04'')
             insert_first ''c1'' ''Hello'' RoleUser None signed_in_db)) = [?row] \<and>
      db_conversations (snd (sendMessage (delivered ''m7'' ''2024-01-04'') (lost ''x'' ''2024-01-04'')
             insert_first ''c1'' ''Hello'' RoleUser None signed_in_db)) = [stored_conversation]"
    for insert_first
    using sendMessage_outcomes [of "delivered ''m7'' ''2024-01-04''" "''c1''" "''Hello''" RoleUser None
        signed_in_db "lost ''x'' ''2024-01-04''" insert_first] m u
    by (simp add: d)
  with m u show ?thesis by blast
qed


end
